theory Spec2Isabelle
  imports Main "HOL-Library.Sublist"
begin

section \<open>The branch ensurer of src/action/git.js\<close>

text \<open>
  The module talks to the hosting API through three methods of an octokit client:
  \<^verbatim>\<open>octokit.rest.git.getRef\<close>, \<^verbatim>\<open>createRef\<close> and \<^verbatim>\<open>deleteRef\<close>. Each call either resolves
  or rejects with an error object, of which the code reads \<^verbatim>\<open>status\<close> and \<^verbatim>\<open>message\<close>.
  A rejected promise is the left summand of a sum type.
\<close>

subsection \<open>Data\<close>

record api_error =
  status :: "int option"
  message :: string

text \<open>
  The part of a resolved \<^verbatim>\<open>getRef\<close> response the code reads: \<^verbatim>\<open>data.object?.sha\<close> and
  \<^verbatim>\<open>data.sha\<close>, either of which may be undefined (\<open>None\<close>).
\<close>

record ref_response =
  object_sha :: "string option"
  sha :: "string option"

text \<open>
  What the function throws: an error object received from the client and thrown again
  (the same object), or an object made on the spot by \<^verbatim>\<open>new Error(message)\<close>.
\<close>

datatype failure = Rethrown api_error | Fresh string

text \<open>\<^verbatim>\<open>github.context.repo\<close>\<close>

record repo_context =
  owner :: string
  repo :: string

text \<open>
  The log of what one run does to the outside: every client call with its arguments
  (owner, repo, ref, and the sha for a creation) and with the answer it got, and every
  timer wait with its delay.
\<close>

datatype event =
    GetRef string string string "api_error + ref_response"
  | CreateRef string string string "string option" "api_error + unit"
  | DeleteRef string string string "api_error + unit"
  | Sleep nat

text \<open>
  The client is an arbitrary sequence of answers per method, as the mocks of
  tests/action/git.spec.js are: the \<open>n\<close>-th call of a method (counted from 0)
  gets the \<open>n\<close>-th answer. The code is sequential, so every behaviour of a real client
  during a run is one such triple of sequences.
\<close>

record octokit_client =
  getRef :: "nat \<Rightarrow> api_error + ref_response"
  createRef :: "nat \<Rightarrow> api_error + unit"
  deleteRef :: "nat \<Rightarrow> api_error + unit"

fun is_get :: "event \<Rightarrow> bool" where
  "is_get (GetRef ow rp rf r) = True"
| "is_get ev = False"

fun is_create :: "event \<Rightarrow> bool" where
  "is_create (CreateRef ow rp rf s r) = True"
| "is_create ev = False"

fun is_delete :: "event \<Rightarrow> bool" where
  "is_delete (DeleteRef ow rp rf r) = True"
| "is_delete ev = False"

definition n_gets :: "event list \<Rightarrow> nat" where
  "n_gets tr = length (filter is_get tr)"

definition n_creates :: "event list \<Rightarrow> nat" where
  "n_creates tr = length (filter is_create tr)"

definition n_deletes :: "event list \<Rightarrow> nat" where
  "n_deletes tr = length (filter is_delete tr)"

fun waits :: "event list \<Rightarrow> nat list" where
  "waits [] = []"
| "waits (Sleep d # tr) = d # waits tr"
| "waits (ev # tr) = waits tr"

subsection \<open>Constants\<close>

definition MAX_CREATION_ATTEMPTS :: nat where
  "MAX_CREATION_ATTEMPTS = 2"

definition MAX_VERIFICATION_ATTEMPTS :: nat where
  "MAX_VERIFICATION_ATTEMPTS = 7"

definition VERIFICATION_BASE_DELAY_MS :: nat where
  "VERIFICATION_BASE_DELAY_MS = 500"

definition BRANCH_REF_PREFIX :: string where
  "BRANCH_REF_PREFIX = ''refs/heads/''"

definition SHORT_REF_PREFIX :: string where
  "SHORT_REF_PREFIX = ''heads/''"

subsection \<open>Operations\<close>

text \<open>
  \<^verbatim>\<open>response.data.object?.sha || response.data.sha\<close>: the left operand unless it is
  falsy (undefined or the empty string).
\<close>

definition resolveRefSha :: "ref_response \<Rightarrow> string option" where
  "resolveRefSha response =
     (case object_sha response of
        None \<Rightarrow> sha response
      | Some s \<Rightarrow> if s = [] then sha response else Some s)"

text \<open>One awaited call of each method: the answer, and the log with the call added.\<close>

definition call_getRef ::
  "octokit_client \<Rightarrow> repo_context \<Rightarrow> string \<Rightarrow> event list
     \<Rightarrow> (api_error + ref_response) \<times> event list" where
  "call_getRef octokit ctx rf tr =
     (let r = getRef octokit (n_gets tr) in (r, tr @ [GetRef (owner ctx) (repo ctx) rf r]))"

definition call_createRef ::
  "octokit_client \<Rightarrow> repo_context \<Rightarrow> string \<Rightarrow> string option \<Rightarrow> event list
     \<Rightarrow> (api_error + unit) \<times> event list" where
  "call_createRef octokit ctx rf s tr =
     (let r = createRef octokit (n_creates tr)
      in (r, tr @ [CreateRef (owner ctx) (repo ctx) rf s r]))"

definition call_deleteRef ::
  "octokit_client \<Rightarrow> repo_context \<Rightarrow> string \<Rightarrow> event list
     \<Rightarrow> (api_error + unit) \<times> event list" where
  "call_deleteRef octokit ctx rf tr =
     (let r = deleteRef octokit (n_deletes tr)
      in (r, tr @ [DeleteRef (owner ctx) (repo ctx) rf r]))"

text \<open>
  \<^verbatim>\<open>createBranchWithCleanup\<close>: the loop \<^verbatim>\<open>for (attempt = 0; attempt < MAX_CREATION_ATTEMPTS; attempt++)\<close>
  from the value \<open>attempt\<close> of its counter on, and the \<^verbatim>\<open>throw\<close> behind it.
\<close>

function createLoop ::
  "octokit_client \<Rightarrow> repo_context \<Rightarrow> string \<Rightarrow> string \<Rightarrow> string \<Rightarrow> string option
     \<Rightarrow> nat \<Rightarrow> event list \<Rightarrow> (failure + unit) \<times> event list" where
  "createLoop octokit ctx branchName branchRef fullBranchRef baseSha attempt tr =
     (if attempt < MAX_CREATION_ATTEMPTS then
        (case call_createRef octokit ctx fullBranchRef baseSha tr of
           (Inr created, tr1) \<Rightarrow> (Inr (), tr1)
         | (Inl error, tr1) \<Rightarrow>
             if status error \<noteq> Some 422 then (Inl (Rethrown error), tr1)
             else
               (case call_getRef octokit ctx branchRef tr1 of
                  (Inr existing, tr2) \<Rightarrow> (Inr (), tr2)
                | (Inl getError, tr2) \<Rightarrow>
                    if status getError \<noteq> Some 404 then (Inl (Rethrown getError), tr2)
                    else
                      (case call_deleteRef octokit ctx fullBranchRef tr2 of
                         (Inr deleted, tr3) \<Rightarrow>
                           createLoop octokit ctx branchName branchRef fullBranchRef baseSha
                             (attempt + 1) tr3
                       | (Inl deleteError, tr3) \<Rightarrow>
                           if status deleteError = Some 404 \<or> status deleteError = Some 422
                           then createLoop octokit ctx branchName branchRef fullBranchRef baseSha
                                  (attempt + 1) tr3
                           else (Inl (Rethrown deleteError), tr3))))
      else
        (Inl (Fresh (''Unable to create branch '' @ branchName
                      @ '' after cleaning up conflicting references.'')), tr))"
  by pat_completeness auto
termination
  by (relation "measure (\<lambda>(octokit, ctx, branchName, branchRef, fullBranchRef, baseSha, attempt, tr).
                   MAX_CREATION_ATTEMPTS - attempt)") auto

declare createLoop.simps [simp del]

definition createBranchWithCleanup ::
  "octokit_client \<Rightarrow> repo_context \<Rightarrow> string \<Rightarrow> string \<Rightarrow> string \<Rightarrow> string option
     \<Rightarrow> event list \<Rightarrow> (failure + unit) \<times> event list" where
  "createBranchWithCleanup octokit ctx branchName branchRef fullBranchRef baseSha tr =
     createLoop octokit ctx branchName branchRef fullBranchRef baseSha 0 tr"

text \<open>
  The verification loop of \<^verbatim>\<open>ensureUpdateBranchExists\<close>,
  \<^verbatim>\<open>for (attempt = 0; attempt < MAX_VERIFICATION_ATTEMPTS; attempt++)\<close>, from the value
  \<open>attempt\<close> of its counter on, and the \<^verbatim>\<open>return true\<close> behind it. The wait is
  \<^verbatim>\<open>setTimeout\<close> with \<^verbatim>\<open>VERIFICATION_BASE_DELAY_MS * Math.pow(2, attempt)\<close>.
\<close>

function verifyLoop ::
  "octokit_client \<Rightarrow> repo_context \<Rightarrow> string \<Rightarrow> string \<Rightarrow> nat \<Rightarrow> event list
     \<Rightarrow> (failure + bool) \<times> event list" where
  "verifyLoop octokit ctx branchName branchRef attempt tr =
     (if attempt < MAX_VERIFICATION_ATTEMPTS then
        (case call_getRef octokit ctx branchRef tr of
           (Inr branchRefData, tr1) \<Rightarrow> (Inr True, tr1)
         | (Inl error, tr1) \<Rightarrow>
             if status error = Some 404 \<and> attempt < MAX_VERIFICATION_ATTEMPTS - 1 then
               verifyLoop octokit ctx branchName branchRef (attempt + 1)
                 (tr1 @ [Sleep (VERIFICATION_BASE_DELAY_MS * 2 ^ attempt)])
             else
               (Inl (Fresh (''Branch '' @ branchName
                     @ '' was created but is not accessible after multiple retries'')), tr1))
      else (Inr True, tr))"
  by pat_completeness auto
termination
  by (relation "measure (\<lambda>(octokit, ctx, branchName, branchRef, attempt, tr).
                   MAX_VERIFICATION_ATTEMPTS - attempt)") auto

declare verifyLoop.simps [simp del]

text \<open>
  \<^verbatim>\<open>ensureUpdateBranchExists({ octokit, branchName, baseBranch })\<close>. The client may be
  absent (\<open>None\<close>); \<open>ctx\<close> is \<^verbatim>\<open>github.context.repo\<close>; \<open>tr\<close> is the log so far, and
  the result carries the log at the end. The calls of \<^verbatim>\<open>core.info\<close> and
  \<^verbatim>\<open>core.warning\<close> only print and are left out.
\<close>

definition ensureUpdateBranchExists ::
  "octokit_client option \<Rightarrow> repo_context \<Rightarrow> string \<Rightarrow> string \<Rightarrow> event list
     \<Rightarrow> (failure + bool) \<times> event list" where
  "ensureUpdateBranchExists octokit_opt ctx branchName baseBranch tr =
     (case octokit_opt of
        None \<Rightarrow>
          (Inl (Fresh ''ensureUpdateBranchExists requires an authenticated octokit client.''), tr)
      | Some octokit \<Rightarrow>
          (let branchRef = SHORT_REF_PREFIX @ branchName;
               baseRef = SHORT_REF_PREFIX @ baseBranch;
               fullBranchRef = BRANCH_REF_PREFIX @ branchName
           in case call_getRef octokit ctx branchRef tr of
                (Inr existing, tr1) \<Rightarrow> (Inr True, tr1)
              | (Inl error, tr1) \<Rightarrow>
                  if status error \<noteq> Some 404 then (Inl (Rethrown error), tr1)
                  else
                    (case call_getRef octokit ctx baseRef tr1 of
                       (Inl baseError, tr2) \<Rightarrow> (Inl (Rethrown baseError), tr2)
                     | (Inr base, tr2) \<Rightarrow>
                         (case createBranchWithCleanup octokit ctx branchName branchRef
                                 fullBranchRef (resolveRefSha base) tr2 of
                            (Inl thrown, tr3) \<Rightarrow> (Inl thrown, tr3)
                          | (Inr created, tr3) \<Rightarrow>
                              verifyLoop octokit ctx branchName branchRef 0 tr3))))"

subsection \<open>A scripted client\<close>

text \<open>
  The client of the test file: a list of answers per method, given out in order
  (\<^verbatim>\<open>mockResolvedValueOnce\<close>, \<^verbatim>\<open>mockRejectedValueOnce\<close>), and a fallback once the list is
  used up (\<^verbatim>\<open>mockResolvedValue\<close> for \<^verbatim>\<open>getRef\<close>; the other two resolve).
\<close>

definition nth_or :: "'a list \<Rightarrow> 'a \<Rightarrow> nat \<Rightarrow> 'a" where
  "nth_or xs d n = (if n < length xs then xs ! n else d)"

definition octokitMock ::
  "(api_error + ref_response) list \<Rightarrow> (api_error + ref_response)
     \<Rightarrow> (api_error + unit) list \<Rightarrow> (api_error + unit) list \<Rightarrow> octokit_client" where
  "octokitMock gets fallback creates deletes =
     \<lparr> getRef = nth_or gets fallback,
       createRef = nth_or creates (Inr ()),
       deleteRef = nth_or deletes (Inr ()) \<rparr>"

definition rejected :: "int \<Rightarrow> string \<Rightarrow> api_error + 'a" where
  "rejected st m = Inl \<lparr> status = Some st, message = m \<rparr>"

definition resolved :: "string \<Rightarrow> api_error + ref_response" where
  "resolved s = Inr \<lparr> object_sha = Some s, sha = None \<rparr>"

subsection \<open>Properties of a log\<close>

text \<open>
  What a run for \<open>branchName\<close> and \<open>baseBranch\<close> may do: read the short ref of either
  branch, create or delete the fully-qualified ref of \<open>branchName\<close>, wait.
\<close>

fun allowed :: "repo_context \<Rightarrow> string \<Rightarrow> string \<Rightarrow> event \<Rightarrow> bool" where
  "allowed ctx branchName baseBranch (GetRef ow rp rf r) =
     (ow = owner ctx \<and> rp = repo ctx \<and>
      (rf = ''heads/'' @ branchName \<or> rf = ''heads/'' @ baseBranch))"
| "allowed ctx branchName baseBranch (CreateRef ow rp rf s r) =
     (ow = owner ctx \<and> rp = repo ctx \<and> rf = ''refs/heads/'' @ branchName)"
| "allowed ctx branchName baseBranch (DeleteRef ow rp rf r) =
     (ow = owner ctx \<and> rp = repo ctx \<and> rf = ''refs/heads/'' @ branchName)"
| "allowed ctx branchName baseBranch (Sleep d) = True"

text \<open>A creation of ref \<open>rf'\<close> that was rejected with status 422.\<close>

fun conflict_create :: "string \<Rightarrow> event \<Rightarrow> bool" where
  "conflict_create rf' (CreateRef ow rp rf s (Inl e)) = (rf = rf' \<and> status e = Some 422)"
| "conflict_create rf' ev = False"

text \<open>A read of ref \<open>rf'\<close> that was rejected with status 404.\<close>

fun missing_read :: "string \<Rightarrow> event \<Rightarrow> bool" where
  "missing_read rf' (GetRef ow rp rf (Inl e)) = (rf = rf' \<and> status e = Some 404)"
| "missing_read rf' ev = False"

text \<open>
  On a log read backwards (latest event first): every deletion has, right before it, a
  read of the branch rejected with 404 and, right before that, a creation rejected with 422.
\<close>

fun deletes_guarded :: "string \<Rightarrow> event list \<Rightarrow> bool" where
  "deletes_guarded branchName [] = True"
| "deletes_guarded branchName (ev # older) =
     ((if is_delete ev
       then (case older of
               g # c # rest \<Rightarrow>
                 missing_read (''heads/'' @ branchName) g
                 \<and> conflict_create (''refs/heads/'' @ branchName) c
             | _ \<Rightarrow> False)
       else True)
      \<and> deletes_guarded branchName older)"

definition deletes_only_after_conflict :: "string \<Rightarrow> event list \<Rightarrow> bool" where
  "deletes_only_after_conflict branchName tr = deletes_guarded branchName (rev tr)"

text \<open>An answer that lets the loop go on after a deletion: resolved, or rejected with 404 or 422.\<close>

fun tolerated :: "api_error + unit \<Rightarrow> bool" where
  "tolerated (Inr u) = True"
| "tolerated (Inl e) = (status e = Some 404 \<or> status e = Some 422)"

fun rejected_with :: "int \<Rightarrow> api_error + 'a \<Rightarrow> bool" where
  "rejected_with st (Inl e) = (status e = Some st)"
| "rejected_with st (Inr x) = False"

text \<open>
  The schedule as the specification words it, to compare the loop with: after the
  \<open>k\<close>-th rejected verification read (from 0) comes a wait of \<open>500 * 2 ^ k\<close>. This is
  the part of the log that \<open>j\<close> such rounds leave, the first read being the \<open>n\<close>-th
  \<^verbatim>\<open>getRef\<close> call of the client.
\<close>

definition spec_backoff_log ::
  "octokit_client \<Rightarrow> repo_context \<Rightarrow> string \<Rightarrow> nat \<Rightarrow> nat \<Rightarrow> event list" where
  "spec_backoff_log octokit ctx branchRef n j =
     concat (map (\<lambda>k. [GetRef (owner ctx) (repo ctx) branchRef (getRef octokit (n + k)),
                         Sleep (500 * 2 ^ k)]) [0..<j])"

subsection \<open>The clients of the test file\<close>

text \<open>\<^verbatim>\<open>github.context.repo\<close> as tests/action/git.spec.js mocks it.\<close>

definition test_context :: repo_context where
  "test_context = \<lparr> owner = ''owner'', repo = ''repo'' \<rparr>"

text \<open>"reuses existing branch when it already exists": every read resolves.\<close>

definition existing_client :: octokit_client where
  "existing_client = octokitMock [] (resolved ''existing-sha'') [] []"

text \<open>
  "creates new branch when it does not exist": the branch check is rejected with 404, the
  base branch resolves, the creation resolves, the verification read resolves.
\<close>

definition clean_client :: octokit_client where
  "clean_client =
     octokitMock
       [rejected 404 ''Not Found'', resolved ''base-sha'', resolved ''new-branch-sha'']
       (resolved ''existing-sha'') [Inr ()] []"

text \<open>
  "deletes stale reference and retries when createRef returns 422 but getRef is 404":
  the branch check and the re-read are rejected with 404, the first creation with 422.
\<close>

definition stale_ref_client :: octokit_client where
  "stale_ref_client =
     octokitMock
       [rejected 404 ''Not Found'', resolved ''base-sha'', rejected 404 ''Not Found'',
        resolved ''new-branch-sha'']
       (resolved ''existing-sha'')
       [rejected 422 ''Reference already exists'', Inr ()]
       []"

text \<open>
  The same, with the retried creation rejected with 422 as well and the read after it
  rejected with 404 again.
\<close>

definition double_conflict_client :: octokit_client where
  "double_conflict_client =
     octokitMock
       [rejected 404 ''Not Found'', resolved ''base-sha'', rejected 404 ''Not Found'',
        rejected 404 ''Not Found'']
       (resolved ''existing-sha'')
       [rejected 422 ''Reference already exists'', rejected 422 ''Reference already exists'']
       []"

text \<open>
  The branch check and the re-read are rejected with 404, the creation with 422, and the
  deletion with status 500.
\<close>

definition delete_fails_client :: octokit_client where
  "delete_fails_client =
     octokitMock
       [rejected 404 ''Not Found'', resolved ''base-sha'', rejected 404 ''Not Found'']
       (resolved ''existing-sha'')
       [rejected 422 ''Reference already exists'']
       [rejected 500 ''Server Error'']"

text \<open>The branch is missing and the read of the base branch is rejected with status 500.\<close>

definition base_unreadable_client :: octokit_client where
  "base_unreadable_client =
     octokitMock [rejected 404 ''Not Found'', rejected 500 ''Server Error'']
       (resolved ''existing-sha'') [] []"

text \<open>
  "throws when branch never becomes accessible": the branch check is rejected with 404,
  the base branch resolves, every later read is rejected with 404.
\<close>

definition never_accessible_client :: octokit_client where
  "never_accessible_client =
     octokitMock [rejected 404 ''Not Found'', resolved ''base-sha'']
       (rejected 404 ''Not Found'') [] []"

text \<open>
  The branch check is rejected with 404, the base branch resolves, the creation resolves,
  six verification reads are rejected with 404 and the seventh resolves.
\<close>

definition slow_client :: octokit_client where
  "slow_client =
     octokitMock
       [rejected 404 ''Not Found'', resolved ''base-sha'',
        rejected 404 ''Not Found'', rejected 404 ''Not Found'', rejected 404 ''Not Found'',
        rejected 404 ''Not Found'', rejected 404 ''Not Found'', rejected 404 ''Not Found'',
        resolved ''new-branch-sha'']
       (resolved ''existing-sha'') [Inr ()] []"

section \<open>Auxiliary facts\<close>

lemma n_gets_simps [simp]:
  "n_gets [] = 0"
  "n_gets (tr @ tr') = n_gets tr + n_gets tr'"
  "n_gets (ev # tr) = (if is_get ev then 1 else 0) + n_gets tr"
  by (simp_all add: n_gets_def)

lemma n_creates_simps [simp]:
  "n_creates [] = 0"
  "n_creates (tr @ tr') = n_creates tr + n_creates tr'"
  "n_creates (ev # tr) = (if is_create ev then 1 else 0) + n_creates tr"
  by (simp_all add: n_creates_def)

lemma n_deletes_simps [simp]:
  "n_deletes [] = 0"
  "n_deletes (tr @ tr') = n_deletes tr + n_deletes tr'"
  "n_deletes (ev # tr) = (if is_delete ev then 1 else 0) + n_deletes tr"
  by (simp_all add: n_deletes_def)

lemma waits_append [simp]: "waits (tr @ tr') = waits tr @ waits tr'"
  by (induction tr rule: waits.induct) simp_all

lemmas call_defs = call_getRef_def call_createRef_def call_deleteRef_def Let_def

lemmas ref_defs = SHORT_REF_PREFIX_def BRANCH_REF_PREFIX_def

lemmas const_defs =
  MAX_CREATION_ATTEMPTS_def MAX_VERIFICATION_ATTEMPTS_def VERIFICATION_BASE_DELAY_MS_def

lemmas mock_defs = octokitMock_def nth_or_def rejected_def resolved_def test_context_def

text \<open>The creation loop, one round unfolded, in terms of the three answers it may ask for.\<close>

lemma createLoop_unfold:
  "createLoop oc ctx bn br fr bs a tr =
     (let c = createRef oc (n_creates tr);
          g = getRef oc (n_gets tr);
          d = deleteRef oc (n_deletes tr);
          tr1 = tr @ [CreateRef (owner ctx) (repo ctx) fr bs c];
          tr2 = tr1 @ [GetRef (owner ctx) (repo ctx) br g];
          tr3 = tr2 @ [DeleteRef (owner ctx) (repo ctx) fr d]
      in if \<not> a < MAX_CREATION_ATTEMPTS
         then (Inl (Fresh (''Unable to create branch '' @ bn
                       @ '' after cleaning up conflicting references.'')), tr)
         else (case c of
                 Inr u \<Rightarrow> (Inr (), tr1)
               | Inl e \<Rightarrow>
                   if \<not> rejected_with 422 c then (Inl (Rethrown e), tr1)
                   else (case g of
                           Inr x \<Rightarrow> (Inr (), tr2)
                         | Inl e' \<Rightarrow>
                             if \<not> rejected_with 404 g then (Inl (Rethrown e'), tr2)
                             else if tolerated d then createLoop oc ctx bn br fr bs (a + 1) tr3
                             else (case d of Inl e'' \<Rightarrow> (Inl (Rethrown e''), tr3)
                                   | Inr u \<Rightarrow> (Inr (), tr3)))))"
  by (subst createLoop.simps) (simp add: call_defs split: sum.splits)

lemma verifyLoop_unfold:
  "verifyLoop oc ctx bn br a tr =
     (let g = getRef oc (n_gets tr);
          tr1 = tr @ [GetRef (owner ctx) (repo ctx) br g]
      in if \<not> a < MAX_VERIFICATION_ATTEMPTS then (Inr True, tr)
         else (case g of
                 Inr x \<Rightarrow> (Inr True, tr1)
               | Inl e \<Rightarrow>
                   if rejected_with 404 g \<and> a < MAX_VERIFICATION_ATTEMPTS - 1
                   then verifyLoop oc ctx bn br (a + 1)
                          (tr1 @ [Sleep (VERIFICATION_BASE_DELAY_MS * 2 ^ a)])
                   else (Inl (Fresh (''Branch '' @ bn
                           @ '' was created but is not accessible after multiple retries'')), tr1)))"
  by (subst verifyLoop.simps) (simp add: call_defs split: sum.splits)

lemma createLoop_counts:
  "MAX_CREATION_ATTEMPTS - a = d \<Longrightarrow>
   n_creates (snd (createLoop oc ctx bn br fr bs a tr)) \<le> n_creates tr + d \<and>
   n_deletes (snd (createLoop oc ctx bn br fr bs a tr)) \<le> n_deletes tr + d \<and>
   n_gets (snd (createLoop oc ctx bn br fr bs a tr)) \<le> n_gets tr + d \<and>
   waits (snd (createLoop oc ctx bn br fr bs a tr)) = waits tr"
proof (induction d arbitrary: a tr)
  case 0
  then show ?case by (simp add: createLoop_unfold [of _ _ _ _ _ _ a tr])
next
  case (Suc d)
  then have "MAX_CREATION_ATTEMPTS - (a + 1) = d" by simp
  note IH = Suc.IH [OF this,
      of "tr @ [CreateRef (owner ctx) (repo ctx) fr bs (createRef oc (n_creates tr)),
                GetRef (owner ctx) (repo ctx) br (getRef oc (n_gets tr)),
                DeleteRef (owner ctx) (repo ctx) fr (deleteRef oc (n_deletes tr))]"]
  show ?case
    using IH by (auto simp: createLoop_unfold [of _ _ _ _ _ _ a tr] Let_def split: sum.splits)
qed

lemma createLoop_prefix:
  "MAX_CREATION_ATTEMPTS - a = d \<Longrightarrow> prefix tr (snd (createLoop oc ctx bn br fr bs a tr))"
proof (induction d arbitrary: a tr)
  case 0
  then show ?case by (simp add: createLoop_unfold [of _ _ _ _ _ _ a tr])
next
  case (Suc d)
  then have "MAX_CREATION_ATTEMPTS - (a + 1) = d" by simp
  note IH = Suc.IH [OF this,
      of "tr @ [CreateRef (owner ctx) (repo ctx) fr bs (createRef oc (n_creates tr)),
                GetRef (owner ctx) (repo ctx) br (getRef oc (n_gets tr)),
                DeleteRef (owner ctx) (repo ctx) fr (deleteRef oc (n_deletes tr))]"]
  then have "prefix tr (snd (createLoop oc ctx bn br fr bs (a + 1)
       (tr @ [CreateRef (owner ctx) (repo ctx) fr bs (createRef oc (n_creates tr)),
                GetRef (owner ctx) (repo ctx) br (getRef oc (n_gets tr)),
                DeleteRef (owner ctx) (repo ctx) fr (deleteRef oc (n_deletes tr))])))"
    using append_prefixD by blast
  then show ?case
    by (auto simp: createLoop_unfold [of _ _ _ _ _ _ a tr] Let_def split: sum.splits)
qed

lemma createLoop_allowed:
  "MAX_CREATION_ATTEMPTS - a = d \<Longrightarrow> list_all (allowed ctx bn bb) tr \<Longrightarrow>
   list_all (allowed ctx bn bb)
     (snd (createLoop oc ctx bn (''heads/'' @ bn) (''refs/heads/'' @ bn) bs a tr))"
proof (induction d arbitrary: a tr)
  case 0
  then show ?case by (simp add: createLoop_unfold [of _ _ _ _ _ _ a tr])
next
  case (Suc d)
  then have "MAX_CREATION_ATTEMPTS - (a + 1) = d" by simp
  note IH = Suc.IH [OF this,
      of "tr @ [CreateRef (owner ctx) (repo ctx) (''refs/heads/'' @ bn) bs (createRef oc (n_creates tr)),
                GetRef (owner ctx) (repo ctx) (''heads/'' @ bn) (getRef oc (n_gets tr)),
                DeleteRef (owner ctx) (repo ctx) (''refs/heads/'' @ bn) (deleteRef oc (n_deletes tr))]"]
  show ?case
    using IH Suc.prems(2)
    by (auto simp: createLoop_unfold [of _ _ _ _ _ _ a tr] Let_def split: sum.splits)
qed

lemma createLoop_guarded:
  "MAX_CREATION_ATTEMPTS - a = d \<Longrightarrow> deletes_only_after_conflict bn tr \<Longrightarrow>
   deletes_only_after_conflict bn
     (snd (createLoop oc ctx bn (''heads/'' @ bn) (''refs/heads/'' @ bn) bs a tr))"
proof (induction d arbitrary: a tr)
  case 0
  then show ?case by (simp add: createLoop_unfold [of _ _ _ _ _ _ a tr])
next
  case (Suc d)
  then have "MAX_CREATION_ATTEMPTS - (a + 1) = d" by simp
  note IH = Suc.IH [OF this,
      of "tr @ [CreateRef (owner ctx) (repo ctx) (''refs/heads/'' @ bn) bs (createRef oc (n_creates tr)),
                GetRef (owner ctx) (repo ctx) (''heads/'' @ bn) (getRef oc (n_gets tr)),
                DeleteRef (owner ctx) (repo ctx) (''refs/heads/'' @ bn) (deleteRef oc (n_deletes tr))]"]
  show ?case
    using IH Suc.prems(2)
    by (auto simp: createLoop_unfold [of _ _ _ _ _ _ a tr] Let_def
          deletes_only_after_conflict_def split: sum.splits)
qed


lemma verifyLoop_counts:
  "MAX_VERIFICATION_ATTEMPTS - a = d \<Longrightarrow>
   n_creates (snd (verifyLoop oc ctx bn br a tr)) = n_creates tr \<and>
   n_deletes (snd (verifyLoop oc ctx bn br a tr)) = n_deletes tr \<and>
   n_gets (snd (verifyLoop oc ctx bn br a tr)) \<le> n_gets tr + d"
proof (induction d arbitrary: a tr)
  case 0
  then show ?case by (simp add: verifyLoop_unfold [of _ _ _ _ a tr])
next
  case (Suc d)
  then have "MAX_VERIFICATION_ATTEMPTS - (a + 1) = d" by simp
  note IH = Suc.IH [OF this,
      of "tr @ [GetRef (owner ctx) (repo ctx) br (getRef oc (n_gets tr)),
                Sleep (VERIFICATION_BASE_DELAY_MS * 2 ^ a)]"]
  show ?case
    using IH by (auto simp: verifyLoop_unfold [of _ _ _ _ a tr] Let_def split: sum.splits)
qed

lemma verifyLoop_prefix:
  "MAX_VERIFICATION_ATTEMPTS - a = d \<Longrightarrow> prefix tr (snd (verifyLoop oc ctx bn br a tr))"
proof (induction d arbitrary: a tr)
  case 0
  then show ?case by (simp add: verifyLoop_unfold [of _ _ _ _ a tr])
next
  case (Suc d)
  then have "MAX_VERIFICATION_ATTEMPTS - (a + 1) = d" by simp
  note IH = Suc.IH [OF this,
      of "tr @ [GetRef (owner ctx) (repo ctx) br (getRef oc (n_gets tr)),
                Sleep (VERIFICATION_BASE_DELAY_MS * 2 ^ a)]"]
  then have "prefix tr (snd (verifyLoop oc ctx bn br (a + 1)
       (tr @ [GetRef (owner ctx) (repo ctx) br (getRef oc (n_gets tr)),
                Sleep (VERIFICATION_BASE_DELAY_MS * 2 ^ a)])))"
    using append_prefixD by blast
  then show ?case
    by (auto simp: verifyLoop_unfold [of _ _ _ _ a tr] Let_def split: sum.splits)
qed

lemma verifyLoop_allowed:
  "MAX_VERIFICATION_ATTEMPTS - a = d \<Longrightarrow> list_all (allowed ctx bn bb) tr \<Longrightarrow>
   list_all (allowed ctx bn bb) (snd (verifyLoop oc ctx bn (''heads/'' @ bn) a tr))"
proof (induction d arbitrary: a tr)
  case 0
  then show ?case by (simp add: verifyLoop_unfold [of _ _ _ _ a tr])
next
  case (Suc d)
  then have "MAX_VERIFICATION_ATTEMPTS - (a + 1) = d" by simp
  note IH = Suc.IH [OF this,
      of "tr @ [GetRef (owner ctx) (repo ctx) (''heads/'' @ bn) (getRef oc (n_gets tr)),
                Sleep (VERIFICATION_BASE_DELAY_MS * 2 ^ a)]"]
  show ?case
    using IH Suc.prems(2)
    by (auto simp: verifyLoop_unfold [of _ _ _ _ a tr] Let_def split: sum.splits)
qed

lemma verifyLoop_guarded:
  "MAX_VERIFICATION_ATTEMPTS - a = d \<Longrightarrow> deletes_only_after_conflict bn tr \<Longrightarrow>
   deletes_only_after_conflict bn (snd (verifyLoop oc ctx bn br a tr))"
proof (induction d arbitrary: a tr)
  case 0
  then show ?case by (simp add: verifyLoop_unfold [of _ _ _ _ a tr])
next
  case (Suc d)
  then have "MAX_VERIFICATION_ATTEMPTS - (a + 1) = d" by simp
  note IH = Suc.IH [OF this,
      of "tr @ [GetRef (owner ctx) (repo ctx) br (getRef oc (n_gets tr)),
                Sleep (VERIFICATION_BASE_DELAY_MS * 2 ^ a)]"]
  show ?case
    using IH Suc.prems(2)
    by (auto simp: verifyLoop_unfold [of _ _ _ _ a tr] Let_def
          deletes_only_after_conflict_def split: sum.splits)
qed

lemma verifyLoop_waits:
  "MAX_VERIFICATION_ATTEMPTS - a = d \<Longrightarrow>
   sum_list (waits (snd (verifyLoop oc ctx bn br a tr))) + 500 * 2 ^ min a 6
     \<le> sum_list (waits tr) + 32000"
proof (induction d arbitrary: a tr)
  case 0
  then show ?case
    by (simp add: verifyLoop_unfold [of _ _ _ _ a tr] MAX_VERIFICATION_ATTEMPTS_def min_def)
next
  case (Suc d)
  then have "MAX_VERIFICATION_ATTEMPTS - (a + 1) = d" by simp
  note IH = Suc.IH [OF this,
      of "tr @ [GetRef (owner ctx) (repo ctx) br (getRef oc (n_gets tr)),
                Sleep (VERIFICATION_BASE_DELAY_MS * 2 ^ a)]"]
  have small: "(2::nat) ^ min a 6 \<le> 2 ^ 6"
    by (rule power_increasing) simp_all
  show ?case
  proof (cases "a < 6")
    case True
    then have m: "min a 6 = a" "min (a + 1) 6 = a + 1" by simp_all
    show ?thesis
      using IH small
      by (auto simp: verifyLoop_unfold [of _ _ _ _ a tr] Let_def m
            VERIFICATION_BASE_DELAY_MS_def MAX_VERIFICATION_ATTEMPTS_def split: sum.splits)
  next
    case False
    then have m: "min a 6 = 6" by simp
    show ?thesis
      using False
      by (auto simp: verifyLoop_unfold [of _ _ _ _ a tr] Let_def m
            MAX_VERIFICATION_ATTEMPTS_def split: sum.splits)
  qed
qed

lemma ensure_unfold:
  "ensureUpdateBranchExists (Some oc) ctx bn bb tr =
     (let g0 = getRef oc (n_gets tr);
          g1 = getRef oc (n_gets tr + 1);
          tr1 = tr @ [GetRef (owner ctx) (repo ctx) (''heads/'' @ bn) g0];
          tr2 = tr1 @ [GetRef (owner ctx) (repo ctx) (''heads/'' @ bb) g1]
      in case g0 of
           Inr x \<Rightarrow> (Inr True, tr1)
         | Inl e \<Rightarrow>
             if \<not> rejected_with 404 g0 then (Inl (Rethrown e), tr1)
             else (case g1 of
                     Inl e1 \<Rightarrow> (Inl (Rethrown e1), tr2)
                   | Inr base \<Rightarrow>
                       (case createLoop oc ctx bn (''heads/'' @ bn) (''refs/heads/'' @ bn)
                               (resolveRefSha base) 0 tr2 of
                          (Inl thrown, tr3) \<Rightarrow> (Inl thrown, tr3)
                        | (Inr u, tr3) \<Rightarrow> verifyLoop oc ctx bn (''heads/'' @ bn) 0 tr3)))"
  by (simp add: ensureUpdateBranchExists_def createBranchWithCleanup_def call_defs ref_defs
        split: sum.splits prod.splits)

lemma ensure_None:
  "ensureUpdateBranchExists None ctx bn bb tr =
     (Inl (Fresh ''ensureUpdateBranchExists requires an authenticated octokit client.''), tr)"
  by (simp add: ensureUpdateBranchExists_def)

text \<open>The log of a run is one of five: through the phases, as far as the run got.\<close>

lemma ensure_log_cases:
  fixes oc ctx bn bb tr
  defines "tr1 \<equiv> tr @ [GetRef (owner ctx) (repo ctx) (''heads/'' @ bn) (getRef oc (n_gets tr))]"
  defines "tr2 \<equiv> tr1 @ [GetRef (owner ctx) (repo ctx) (''heads/'' @ bb) (getRef oc (n_gets tr + 1))]"
  shows "snd (ensureUpdateBranchExists (Some oc) ctx bn bb tr) = tr1
       \<or> snd (ensureUpdateBranchExists (Some oc) ctx bn bb tr) = tr2
       \<or> (\<exists>bs. snd (ensureUpdateBranchExists (Some oc) ctx bn bb tr) =
                 snd (createLoop oc ctx bn (''heads/'' @ bn) (''refs/heads/'' @ bn) bs 0 tr2))
       \<or> (\<exists>bs. snd (ensureUpdateBranchExists (Some oc) ctx bn bb tr) =
                 snd (verifyLoop oc ctx bn (''heads/'' @ bn) 0
                   (snd (createLoop oc ctx bn (''heads/'' @ bn) (''refs/heads/'' @ bn) bs 0 tr2))))"
  unfolding ensure_unfold tr1_def tr2_def Let_def
  by (auto split: sum.splits prod.splits) (metis snd_conv)+


lemma ensure_counts:
  "n_creates (snd (ensureUpdateBranchExists oo ctx bn bb tr)) \<le> n_creates tr + 2 \<and>
   n_deletes (snd (ensureUpdateBranchExists oo ctx bn bb tr)) \<le> n_deletes tr + 2 \<and>
   n_gets (snd (ensureUpdateBranchExists oo ctx bn bb tr)) \<le> n_gets tr + 11 \<and>
   sum_list (waits (snd (ensureUpdateBranchExists oo ctx bn bb tr)))
     \<le> sum_list (waits tr) + 31500"
proof (cases oo)
  case None
  then show ?thesis by (simp add: ensure_None)
next
  case (Some oc)
  define tr1 where "tr1 = tr @ [GetRef (owner ctx) (repo ctx) (''heads/'' @ bn) (getRef oc (n_gets tr))]"
  define tr2 where "tr2 = tr1 @ [GetRef (owner ctx) (repo ctx) (''heads/'' @ bb) (getRef oc (n_gets tr + 1))]"
  have c: "n_creates tr2 = n_creates tr" "n_deletes tr2 = n_deletes tr"
    "n_gets tr2 = n_gets tr + 2" "waits tr2 = waits tr"
    by (simp_all add: tr1_def tr2_def)
  have cl: "n_creates (snd (createLoop oc ctx bn br fr bs 0 tr2)) \<le> n_creates tr + 2 \<and>
     n_deletes (snd (createLoop oc ctx bn br fr bs 0 tr2)) \<le> n_deletes tr + 2 \<and>
     n_gets (snd (createLoop oc ctx bn br fr bs 0 tr2)) \<le> n_gets tr + 4 \<and>
     waits (snd (createLoop oc ctx bn br fr bs 0 tr2)) = waits tr" for br fr bs
    using createLoop_counts [of 0 2 oc ctx bn br fr bs tr2] c
    by (simp add: MAX_CREATION_ATTEMPTS_def)
  have vl: "n_creates (snd (verifyLoop oc ctx bn br 0 t)) = n_creates t \<and>
     n_deletes (snd (verifyLoop oc ctx bn br 0 t)) = n_deletes t \<and>
     n_gets (snd (verifyLoop oc ctx bn br 0 t)) \<le> n_gets t + 7 \<and>
     sum_list (waits (snd (verifyLoop oc ctx bn br 0 t))) \<le> sum_list (waits t) + 31500" for br t
    using verifyLoop_counts [of 0 7 oc ctx bn br t] verifyLoop_waits [of 0 7 oc ctx bn br t]
    by (simp add: MAX_VERIFICATION_ATTEMPTS_def)
  from ensure_log_cases [of oc ctx bn bb tr]
  consider "snd (ensureUpdateBranchExists (Some oc) ctx bn bb tr) = tr1"
    | "snd (ensureUpdateBranchExists (Some oc) ctx bn bb tr) = tr2"
    | bs where "snd (ensureUpdateBranchExists (Some oc) ctx bn bb tr) =
                 snd (createLoop oc ctx bn (''heads/'' @ bn) (''refs/heads/'' @ bn) bs 0 tr2)"
    | bs where "snd (ensureUpdateBranchExists (Some oc) ctx bn bb tr) =
                 snd (verifyLoop oc ctx bn (''heads/'' @ bn) 0
                   (snd (createLoop oc ctx bn (''heads/'' @ bn) (''refs/heads/'' @ bn) bs 0 tr2)))"
    unfolding tr1_def tr2_def by blast
  then show ?thesis
  proof cases
    case 1
    then show ?thesis unfolding Some by (simp add: tr1_def)
  next
    case 2
    then show ?thesis unfolding Some using c by simp
  next
    case 3
    then show ?thesis unfolding Some
      using cl [of "''heads/'' @ bn" "''refs/heads/'' @ bn" bs] by simp
  next
    case 4
    then show ?thesis unfolding Some
      using cl [of "''heads/'' @ bn" "''refs/heads/'' @ bn" bs]
        vl [of "''heads/'' @ bn"
              "snd (createLoop oc ctx bn (''heads/'' @ bn) (''refs/heads/'' @ bn) bs 0 tr2)"]
      by simp
  qed
qed

lemma ensure_invariants:
  "list_all (allowed ctx bn bb) (snd (ensureUpdateBranchExists oo ctx bn bb [])) \<and>
   deletes_only_after_conflict bn (snd (ensureUpdateBranchExists oo ctx bn bb []))"
proof (cases oo)
  case None
  then show ?thesis by (simp add: ensure_None deletes_only_after_conflict_def)
next
  case (Some oc)
  define tr1 where "tr1 = [GetRef (owner ctx) (repo ctx) (''heads/'' @ bn) (getRef oc (n_gets []))]"
  define tr2 where "tr2 = tr1 @ [GetRef (owner ctx) (repo ctx) (''heads/'' @ bb) (getRef oc (n_gets [] + 1))]"
  have inv1: "list_all (allowed ctx bn bb) tr1 \<and> deletes_only_after_conflict bn tr1"
    by (simp add: tr1_def deletes_only_after_conflict_def)
  have inv2: "list_all (allowed ctx bn bb) tr2 \<and> deletes_only_after_conflict bn tr2"
    by (simp add: tr1_def tr2_def deletes_only_after_conflict_def)
  have inv3: "list_all (allowed ctx bn bb)
        (snd (createLoop oc ctx bn (''heads/'' @ bn) (''refs/heads/'' @ bn) bs 0 tr2)) \<and>
      deletes_only_after_conflict bn
        (snd (createLoop oc ctx bn (''heads/'' @ bn) (''refs/heads/'' @ bn) bs 0 tr2))" for bs
    using inv2 createLoop_allowed [of 0 2 ctx bn bb tr2 oc bs]
      createLoop_guarded [of 0 2 bn tr2 oc ctx bs]
    by (simp add: MAX_CREATION_ATTEMPTS_def)
  have inv4: "list_all (allowed ctx bn bb)
        (snd (verifyLoop oc ctx bn (''heads/'' @ bn) 0
          (snd (createLoop oc ctx bn (''heads/'' @ bn) (''refs/heads/'' @ bn) bs 0 tr2)))) \<and>
      deletes_only_after_conflict bn
        (snd (verifyLoop oc ctx bn (''heads/'' @ bn) 0
          (snd (createLoop oc ctx bn (''heads/'' @ bn) (''refs/heads/'' @ bn) bs 0 tr2))))" for bs
    using inv3 [of bs]
      verifyLoop_allowed [of 0 7 ctx bn bb
        "snd (createLoop oc ctx bn (''heads/'' @ bn) (''refs/heads/'' @ bn) bs 0 tr2)" oc]
      verifyLoop_guarded [of 0 7 bn
        "snd (createLoop oc ctx bn (''heads/'' @ bn) (''refs/heads/'' @ bn) bs 0 tr2)"
        oc ctx "''heads/'' @ bn"]
    by (simp add: MAX_VERIFICATION_ATTEMPTS_def)
  from ensure_log_cases [of oc ctx bn bb "[]"]
  consider "snd (ensureUpdateBranchExists (Some oc) ctx bn bb []) = tr1"
    | "snd (ensureUpdateBranchExists (Some oc) ctx bn bb []) = tr2"
    | bs where "snd (ensureUpdateBranchExists (Some oc) ctx bn bb []) =
                 snd (createLoop oc ctx bn (''heads/'' @ bn) (''refs/heads/'' @ bn) bs 0 tr2)"
    | bs where "snd (ensureUpdateBranchExists (Some oc) ctx bn bb []) =
                 snd (verifyLoop oc ctx bn (''heads/'' @ bn) 0
                   (snd (createLoop oc ctx bn (''heads/'' @ bn) (''refs/heads/'' @ bn) bs 0 tr2)))"
    unfolding tr1_def tr2_def by auto
  then show ?thesis
  proof cases
    case 1
    then show ?thesis unfolding Some using inv1 by simp
  next
    case 2
    then show ?thesis unfolding Some using inv2 by simp
  next
    case 3
    then show ?thesis unfolding Some using inv3 [of bs] by simp
  next
    case 4
    then show ?thesis unfolding Some using inv4 [of bs] by simp
  qed
qed

lemma spec_backoff_log_simps [simp]:
  "spec_backoff_log oc ctx br n 0 = []"
  "spec_backoff_log oc ctx br n (Suc j) =
     spec_backoff_log oc ctx br n j
       @ [GetRef (owner ctx) (repo ctx) br (getRef oc (n + j)), Sleep (500 * 2 ^ j)]"
  by (simp_all add: spec_backoff_log_def)

lemma n_gets_spec_backoff_log [simp]: "n_gets (spec_backoff_log oc ctx br n j) = j"
  by (induction j) simp_all

lemma spec_backoff_log_mutations [simp]:
  "n_creates (spec_backoff_log oc ctx br n j) = 0"
  "n_deletes (spec_backoff_log oc ctx br n j) = 0"
  by (induction j) simp_all

lemma spec_backoff_log_6:
  "spec_backoff_log oc ctx br n 6 =
      [GetRef (owner ctx) (repo ctx) br (getRef oc n), Sleep 500,
       GetRef (owner ctx) (repo ctx) br (getRef oc (n + 1)), Sleep 1000,
       GetRef (owner ctx) (repo ctx) br (getRef oc (n + 2)), Sleep 2000,
       GetRef (owner ctx) (repo ctx) br (getRef oc (n + 3)), Sleep 4000,
       GetRef (owner ctx) (repo ctx) br (getRef oc (n + 4)), Sleep 8000,
       GetRef (owner ctx) (repo ctx) br (getRef oc (n + 5)), Sleep 16000]"
proof -
  have e: "Suc (Suc (Suc n)) = n + 3" "Suc (n + 3) = n + 4" "Suc (n + 4) = n + 5"
    by simp_all
  show ?thesis
    by (simp add: spec_backoff_log_def upt_rec e)
qed

lemma verifyLoop_backoff:
  "\<forall>k<j. rejected_with 404 (getRef oc (n_gets tr + k)) \<Longrightarrow> j < MAX_VERIFICATION_ATTEMPTS \<Longrightarrow>
   verifyLoop oc ctx bn br 0 tr =
     verifyLoop oc ctx bn br j (tr @ spec_backoff_log oc ctx br (n_gets tr) j)"
proof (induction j)
  case 0
  then show ?case by simp
next
  case (Suc j)
  then have IH: "verifyLoop oc ctx bn br 0 tr =
     verifyLoop oc ctx bn br j (tr @ spec_backoff_log oc ctx br (n_gets tr) j)"
    by simp
  have r: "rejected_with 404 (getRef oc (n_gets tr + j))"
    using Suc.prems(1) by simp
  have j: "j < MAX_VERIFICATION_ATTEMPTS - 1" "j < MAX_VERIFICATION_ATTEMPTS"
    using Suc.prems(2) by simp_all
  show ?case
    unfolding IH
    using r j
    by (auto simp: verifyLoop_unfold [of _ _ _ _ j] Let_def VERIFICATION_BASE_DELAY_MS_def
          split: sum.splits)
qed

lemma verifyLoop_prefix_trans:
  "prefix p t \<Longrightarrow> prefix p (snd (verifyLoop oc ctx bn br 0 t))"
  using verifyLoop_prefix [of 0 7 t oc ctx bn br]
  by (auto simp: MAX_VERIFICATION_ATTEMPTS_def intro: prefix_order.trans)

lemma verifyLoop_mutations [simp]:
  "n_creates (snd (verifyLoop oc ctx bn br 0 t)) = n_creates t"
  "n_deletes (snd (verifyLoop oc ctx bn br 0 t)) = n_deletes t"
  using verifyLoop_counts [of 0 7 oc ctx bn br t]
  by (simp_all add: MAX_VERIFICATION_ATTEMPTS_def)

lemma ensure_verifies:
  assumes "getRef oc (n_gets tr) = Inl missing" and "status missing = Some 404"
    and "getRef oc (n_gets tr + 1) = Inr base"
    and "createBranchWithCleanup oc ctx bn (''heads/'' @ bn) (''refs/heads/'' @ bn)
           (resolveRefSha base)
           (tr @ [GetRef (owner ctx) (repo ctx) (''heads/'' @ bn) (Inl missing),
                  GetRef (owner ctx) (repo ctx) (''heads/'' @ bb) (Inr base)])
         = (Inr (), tr3)"
  shows "ensureUpdateBranchExists (Some oc) ctx bn bb tr =
           verifyLoop oc ctx bn (''heads/'' @ bn) 0 tr3"
  using assms by (simp add: ensure_unfold createBranchWithCleanup_def)

lemmas run_simps = ensure_unfold createLoop_unfold verifyLoop_unfold const_defs mock_defs
  Let_def resolveRefSha_def

section \<open>The claims\<close>

text \<open>
  C7. When the first read of the branch resolves, the run returns \<open>true\<close> and its only
  call is that read: no \<^verbatim>\<open>createRef\<close>, no \<^verbatim>\<open>deleteRef\<close>. The log \<open>tr\<close> before the run is
  arbitrary, so this holds as well for a second call for the same branch that finds it.
\<close>

theorem existing_branch_is_reused:
  assumes "getRef oc (n_gets tr) = Inr existing"
  shows "ensureUpdateBranchExists (Some oc) ctx branchName baseBranch tr =
           (Inr True,
            tr @ [GetRef (owner ctx) (repo ctx) (''heads/'' @ branchName) (Inr existing)])
         \<and> n_creates (snd (ensureUpdateBranchExists (Some oc) ctx branchName baseBranch tr))
             = n_creates tr
         \<and> n_deletes (snd (ensureUpdateBranchExists (Some oc) ctx branchName baseBranch tr))
             = n_deletes tr"
  using assms by (simp add: ensure_unfold)

theorem existing_branch_is_reused_witness:
  "ensureUpdateBranchExists (Some clean_client) test_context ''test-branch'' ''main''
     (snd (ensureUpdateBranchExists (Some clean_client) test_context
             ''test-branch'' ''main'' [])) =
     (Inr True,
      [GetRef ''owner'' ''repo'' ''heads/test-branch'' (rejected 404 ''Not Found''),
       GetRef ''owner'' ''repo'' ''heads/main'' (resolved ''base-sha''),
       CreateRef ''owner'' ''repo'' ''refs/heads/test-branch'' (Some ''base-sha'') (Inr ()),
       GetRef ''owner'' ''repo'' ''heads/test-branch'' (resolved ''new-branch-sha''),
       GetRef ''owner'' ''repo'' ''heads/test-branch'' (resolved ''existing-sha'')])"
proof -
  define first where "first = snd (ensureUpdateBranchExists (Some clean_client) test_context
             ''test-branch'' ''main'' [])"
  have first: "first =
      [GetRef ''owner'' ''repo'' ''heads/test-branch''
         (Inl \<lparr> status = Some 404, message = ''Not Found'' \<rparr>),
       GetRef ''owner'' ''repo'' ''heads/main''
         (Inr \<lparr> object_sha = Some ''base-sha'', sha = None \<rparr>),
       CreateRef ''owner'' ''repo'' ''refs/heads/test-branch'' (Some ''base-sha'') (Inr ()),
       GetRef ''owner'' ''repo'' ''heads/test-branch''
         (Inr \<lparr> object_sha = Some ''new-branch-sha'', sha = None \<rparr>)]"
    by (simp add: first_def clean_client_def run_simps)
  have h: "getRef clean_client (n_gets first) =
             Inr \<lparr> object_sha = Some ''existing-sha'', sha = None \<rparr>"
    by (simp add: first clean_client_def mock_defs)
  have "ensureUpdateBranchExists (Some clean_client) test_context ''test-branch'' ''main'' first
      = (Inr True,
         first @ [GetRef (owner test_context) (repo test_context) (''heads/'' @ ''test-branch'')
                    (Inr \<lparr> object_sha = Some ''existing-sha'', sha = None \<rparr>)])"
    using existing_branch_is_reused [OF h, of test_context "''test-branch''" "''main''"]
    by (rule conjunct1)
  then show ?thesis
    unfolding first_def [symmetric] by (simp add: first mock_defs)
qed

text \<open>
  C8. When the branch is missing and the read of the base branch is rejected, the run
  throws the error object of that read and calls \<^verbatim>\<open>createRef\<close> not at all. The code has
  no \<^verbatim>\<open>catch\<close> around this read, so this holds whatever the status of the error.
\<close>

theorem base_read_error_propagates:
  assumes "getRef oc (n_gets tr) = Inl missing" and "status missing = Some 404"
    and "getRef oc (n_gets tr + 1) = Inl baseError"
  shows "ensureUpdateBranchExists (Some oc) ctx branchName baseBranch tr =
           (Inl (Rethrown baseError),
            tr @ [GetRef (owner ctx) (repo ctx) (''heads/'' @ branchName) (Inl missing),
                  GetRef (owner ctx) (repo ctx) (''heads/'' @ baseBranch) (Inl baseError)])
         \<and> n_creates (snd (ensureUpdateBranchExists (Some oc) ctx branchName baseBranch tr))
             = n_creates tr"
  using assms by (simp add: ensure_unfold)

theorem base_read_error_propagates_witness:
  "getRef base_unreadable_client (n_gets []) = rejected 404 ''Not Found''
   \<and> getRef base_unreadable_client (n_gets [] + 1) = rejected 500 ''Server Error''
   \<and> ensureUpdateBranchExists (Some base_unreadable_client) test_context
        ''test-branch'' ''main'' [] =
       (Inl (Rethrown \<lparr> status = Some 500, message = ''Server Error'' \<rparr>),
        [GetRef ''owner'' ''repo'' ''heads/test-branch'' (rejected 404 ''Not Found''),
         GetRef ''owner'' ''repo'' ''heads/main'' (rejected 500 ''Server Error'')])
   \<and> n_creates (snd (ensureUpdateBranchExists (Some base_unreadable_client) test_context
         ''test-branch'' ''main'' [])) = 0"
proof -
  have h1: "getRef base_unreadable_client (n_gets []) =
              Inl \<lparr> status = Some 404, message = ''Not Found'' \<rparr>"
    by (simp add: base_unreadable_client_def mock_defs)
  have h2: "status \<lparr> status = Some 404, message = ''Not Found'' \<rparr> = Some 404"
    by simp
  have h3: "getRef base_unreadable_client (n_gets [] + 1) =
              Inl \<lparr> status = Some 500, message = ''Server Error'' \<rparr>"
    by (simp add: base_unreadable_client_def mock_defs)
  show ?thesis
    using h1 h3
      base_read_error_propagates [OF h1 h2 h3, of test_context "''test-branch''" "''main''"]
    by (simp add: mock_defs)
qed

text \<open>
  C10. The model is a total function, so every run ends, whatever the client answers and
  also without a client. A run makes at most 2 \<^verbatim>\<open>createRef\<close> calls, at most 2
  \<^verbatim>\<open>deleteRef\<close> calls and at most 11 \<^verbatim>\<open>getRef\<close> calls, and it waits 31500 ms at most
  in all.
\<close>

theorem run_is_bounded:
  "n_creates (snd (ensureUpdateBranchExists octokit ctx branchName baseBranch tr))
     \<le> n_creates tr + 2
   \<and> n_deletes (snd (ensureUpdateBranchExists octokit ctx branchName baseBranch tr))
     \<le> n_deletes tr + 2
   \<and> n_gets (snd (ensureUpdateBranchExists octokit ctx branchName baseBranch tr))
     \<le> n_gets tr + 11
   \<and> sum_list (waits (snd (ensureUpdateBranchExists octokit ctx branchName baseBranch tr)))
     \<le> sum_list (waits tr) + 31500"
  by (rule ensure_counts)

text \<open>
  C9. In the log of a run, every \<^verbatim>\<open>deleteRef\<close> call comes right after a read of the
  branch that was rejected with 404, which comes right after a \<^verbatim>\<open>createRef\<close> call that
  was rejected with 422.
\<close>

theorem delete_only_after_conflict_and_missing_read:
  "deletes_only_after_conflict branchName
     (snd (ensureUpdateBranchExists octokit ctx branchName baseBranch []))"
  using ensure_invariants [of ctx branchName baseBranch octokit] by simp

theorem delete_only_after_conflict_and_missing_read_witness:
  "n_deletes (snd (ensureUpdateBranchExists (Some stale_ref_client) test_context
       ''test-branch'' ''main'' [])) = 1
   \<and> deletes_only_after_conflict ''test-branch''
       (snd (ensureUpdateBranchExists (Some stale_ref_client) test_context
          ''test-branch'' ''main'' []))"
  using delete_only_after_conflict_and_missing_read
          [of "''test-branch''" "Some stale_ref_client" test_context "''main''"]
  by (simp add: stale_ref_client_def run_simps)

text \<open>
  C3 as the code has it. A run makes at most two \<^verbatim>\<open>createRef\<close> calls and at most two
  \<^verbatim>\<open>deleteRef\<close> calls, and everything it does is a read of one of the two branches, a
  creation or a deletion of \<^verbatim>\<open>refs/heads/<branchName>\<close>, or a wait.
\<close>

theorem at_most_two_creations_and_deletions:
  "n_creates (snd (ensureUpdateBranchExists octokit ctx branchName baseBranch tr))
     \<le> n_creates tr + 2
   \<and> n_deletes (snd (ensureUpdateBranchExists octokit ctx branchName baseBranch tr))
     \<le> n_deletes tr + 2
   \<and> list_all (allowed ctx branchName baseBranch)
       (snd (ensureUpdateBranchExists octokit ctx branchName baseBranch []))"
  using ensure_counts [of octokit ctx branchName baseBranch tr]
    ensure_invariants [of ctx branchName baseBranch octokit]
  by simp

text \<open>
  C3 as the spec words it fails: the run of the test "deletes stale reference and
  retries" makes two \<^verbatim>\<open>createRef\<close> calls, and a run whose retried creation conflicts
  again makes two \<^verbatim>\<open>deleteRef\<close> calls.
\<close>

theorem one_creation_counterexample:
  "\<not> n_creates (snd (ensureUpdateBranchExists (Some stale_ref_client) test_context
         ''test-branch'' ''main'' [])) \<le> 1
   \<and> \<not> n_deletes (snd (ensureUpdateBranchExists (Some double_conflict_client) test_context
         ''test-branch'' ''main'' [])) \<le> 1"
  by (simp add: stale_ref_client_def double_conflict_client_def run_simps)

text \<open>
  C4. When the run reaches the verification loop and the first six reads there are
  rejected with 404 and the seventh resolves, the run returns normally, and what it does in
  the loop is: read, wait 500, read, wait 1000, read, wait 2000, read, wait 4000, read,
  wait 8000, read, wait 16000, read. So no wait comes before the first read, and the wait
  before read \<open>k\<close> (from 1 to 6) is \<open>500 * 2 ^ (k - 1)\<close> ms.
\<close>

theorem backoff_schedule:
  assumes "getRef oc (n_gets tr) = Inl missing" and "status missing = Some 404"
    and "getRef oc (n_gets tr + 1) = Inr base"
    and "createBranchWithCleanup oc ctx branchName (''heads/'' @ branchName)
           (''refs/heads/'' @ branchName) (resolveRefSha base)
           (tr @ [GetRef (owner ctx) (repo ctx) (''heads/'' @ branchName) (Inl missing),
                  GetRef (owner ctx) (repo ctx) (''heads/'' @ baseBranch) (Inr base)])
         = (Inr (), tr3)"
    and "\<forall>k<6. rejected_with 404 (getRef oc (n_gets tr3 + k))"
    and "getRef oc (n_gets tr3 + 6) = Inr verified"
  shows "ensureUpdateBranchExists (Some oc) ctx branchName baseBranch tr =
           (Inr True,
            tr3 @ [GetRef (owner ctx) (repo ctx) (''heads/'' @ branchName) (getRef oc (n_gets tr3)),
                   Sleep 500,
                   GetRef (owner ctx) (repo ctx) (''heads/'' @ branchName) (getRef oc (n_gets tr3 + 1)),
                   Sleep 1000,
                   GetRef (owner ctx) (repo ctx) (''heads/'' @ branchName) (getRef oc (n_gets tr3 + 2)),
                   Sleep 2000,
                   GetRef (owner ctx) (repo ctx) (''heads/'' @ branchName) (getRef oc (n_gets tr3 + 3)),
                   Sleep 4000,
                   GetRef (owner ctx) (repo ctx) (''heads/'' @ branchName) (getRef oc (n_gets tr3 + 4)),
                   Sleep 8000,
                   GetRef (owner ctx) (repo ctx) (''heads/'' @ branchName) (getRef oc (n_gets tr3 + 5)),
                   Sleep 16000,
                   GetRef (owner ctx) (repo ctx) (''heads/'' @ branchName) (Inr verified)])
         \<and> waits (snd (ensureUpdateBranchExists (Some oc) ctx branchName baseBranch tr)) =
             waits tr3 @ map (\<lambda>k. 500 * 2 ^ (k - 1)) [1..<7]"
proof -
  define T where "T = tr3 @ spec_backoff_log oc ctx (''heads/'' @ branchName) (n_gets tr3) 6"
  have n6: "n_gets T = n_gets tr3 + 6"
    by (simp add: T_def)
  have "ensureUpdateBranchExists (Some oc) ctx branchName baseBranch tr =
          verifyLoop oc ctx branchName (''heads/'' @ branchName) 0 tr3"
    using assms(1-4) by (rule ensure_verifies)
  also have "\<dots> = verifyLoop oc ctx branchName (''heads/'' @ branchName) 6 T"
    unfolding T_def using assms(5)
    by (intro verifyLoop_backoff) (simp_all add: MAX_VERIFICATION_ATTEMPTS_def)
  also have "\<dots> = (Inr True,
      T @ [GetRef (owner ctx) (repo ctx) (''heads/'' @ branchName) (Inr verified)])"
    using assms(6) n6
    by (simp add: verifyLoop_unfold [of _ _ _ _ 6] Let_def MAX_VERIFICATION_ATTEMPTS_def)
  finally have run: "ensureUpdateBranchExists (Some oc) ctx branchName baseBranch tr =
      (Inr True, T @ [GetRef (owner ctx) (repo ctx) (''heads/'' @ branchName) (Inr verified)])" .
  show ?thesis
    unfolding run by (simp add: T_def spec_backoff_log_6 upt_rec)
qed


theorem backoff_schedule_witness:
  "ensureUpdateBranchExists (Some slow_client) test_context ''test-branch'' ''main'' [] =
     (Inr True,
      [GetRef ''owner'' ''repo'' ''heads/test-branch'' (rejected 404 ''Not Found''),
       GetRef ''owner'' ''repo'' ''heads/main'' (resolved ''base-sha''),
       CreateRef ''owner'' ''repo'' ''refs/heads/test-branch'' (Some ''base-sha'') (Inr ()),
       GetRef ''owner'' ''repo'' ''heads/test-branch'' (rejected 404 ''Not Found''),
       Sleep 500,
       GetRef ''owner'' ''repo'' ''heads/test-branch'' (rejected 404 ''Not Found''),
       Sleep 1000,
       GetRef ''owner'' ''repo'' ''heads/test-branch'' (rejected 404 ''Not Found''),
       Sleep 2000,
       GetRef ''owner'' ''repo'' ''heads/test-branch'' (rejected 404 ''Not Found''),
       Sleep 4000,
       GetRef ''owner'' ''repo'' ''heads/test-branch'' (rejected 404 ''Not Found''),
       Sleep 8000,
       GetRef ''owner'' ''repo'' ''heads/test-branch'' (rejected 404 ''Not Found''),
       Sleep 16000,
       GetRef ''owner'' ''repo'' ''heads/test-branch'' (resolved ''new-branch-sha'')])
   \<and> waits (snd (ensureUpdateBranchExists (Some slow_client) test_context
         ''test-branch'' ''main'' [])) = [500, 1000, 2000, 4000, 8000, 16000]"
proof -
  define tr3 where "tr3 =
    [GetRef ''owner'' ''repo'' ''heads/test-branch''
       (Inl \<lparr> status = Some 404, message = ''Not Found'' \<rparr>),
     GetRef ''owner'' ''repo'' ''heads/main''
       (Inr \<lparr> object_sha = Some ''base-sha'', sha = None \<rparr>),
     CreateRef ''owner'' ''repo'' ''refs/heads/test-branch'' (Some ''base-sha'') (Inr ())]"
  have n3: "n_gets tr3 = 2"
    by (simp add: tr3_def)
  have h1: "getRef slow_client (n_gets []) = Inl \<lparr> status = Some 404, message = ''Not Found'' \<rparr>"
    by (simp add: slow_client_def mock_defs)
  have h2: "status \<lparr> status = Some 404, message = ''Not Found'' \<rparr> = Some 404"
    by simp
  have h3: "getRef slow_client (n_gets [] + 1) =
              Inr \<lparr> object_sha = Some ''base-sha'', sha = None \<rparr>"
    by (simp add: slow_client_def mock_defs)
  have h4: "createBranchWithCleanup slow_client test_context ''test-branch''
        (''heads/'' @ ''test-branch'') (''refs/heads/'' @ ''test-branch'')
        (resolveRefSha \<lparr> object_sha = Some ''base-sha'', sha = None \<rparr>)
        ([] @ [GetRef (owner test_context) (repo test_context) (''heads/'' @ ''test-branch'')
                 (Inl \<lparr> status = Some 404, message = ''Not Found'' \<rparr>),
               GetRef (owner test_context) (repo test_context) (''heads/'' @ ''main'')
                 (Inr \<lparr> object_sha = Some ''base-sha'', sha = None \<rparr>)])
      = (Inr (), tr3)"
    by (simp add: createBranchWithCleanup_def slow_client_def tr3_def run_simps)
  have h5: "\<forall>k<6. rejected_with 404 (getRef slow_client (n_gets tr3 + k))"
  proof (intro allI impI)
    fix k :: nat
    assume "k < 6"
    then consider "k = 0" | "k = 1" | "k = 2" | "k = 3" | "k = 4" | "k = 5"
      by linarith
    then show "rejected_with 404 (getRef slow_client (n_gets tr3 + k))"
      by cases (simp_all add: n3 slow_client_def mock_defs)
  qed
  have h6: "getRef slow_client (n_gets tr3 + 6) =
              Inr \<lparr> object_sha = Some ''new-branch-sha'', sha = None \<rparr>"
    by (simp add: n3 slow_client_def mock_defs)
  show ?thesis
    using backoff_schedule [OF h1 h2 h3 h4 h5 h6]
    by (simp add: n3 tr3_def slow_client_def mock_defs upt_rec)
qed

text \<open>
  C5. When the run reaches the verification loop and all seven reads there are rejected
  with 404, the run throws a new error whose message holds "not accessible after multiple
  retries" and the name of the branch; it makes exactly those seven reads.
\<close>

theorem verification_exhausted:
  assumes "getRef oc (n_gets tr) = Inl missing" and "status missing = Some 404"
    and "getRef oc (n_gets tr + 1) = Inr base"
    and "createBranchWithCleanup oc ctx branchName (''heads/'' @ branchName)
           (''refs/heads/'' @ branchName) (resolveRefSha base)
           (tr @ [GetRef (owner ctx) (repo ctx) (''heads/'' @ branchName) (Inl missing),
                  GetRef (owner ctx) (repo ctx) (''heads/'' @ baseBranch) (Inr base)])
         = (Inr (), tr3)"
    and "\<forall>k<7. rejected_with 404 (getRef oc (n_gets tr3 + k))"
  shows "fst (ensureUpdateBranchExists (Some oc) ctx branchName baseBranch tr) =
           Inl (Fresh (''Branch '' @ branchName
                  @ '' was created but is not accessible after multiple retries''))
         \<and> n_gets (snd (ensureUpdateBranchExists (Some oc) ctx branchName baseBranch tr))
             = n_gets tr3 + 7
         \<and> (\<exists>m. fst (ensureUpdateBranchExists (Some oc) ctx branchName baseBranch tr)
                  = Inl (Fresh m)
                \<and> sublist ''not accessible after multiple retries'' m
                \<and> sublist branchName m)"
proof -
  define T where "T = tr3 @ spec_backoff_log oc ctx (''heads/'' @ branchName) (n_gets tr3) 6"
  define msg where "msg = ''Branch '' @ branchName
                  @ '' was created but is not accessible after multiple retries''"
  have n6: "n_gets T = n_gets tr3 + 6"
    by (simp add: T_def)
  have last: "rejected_with 404 (getRef oc (n_gets tr3 + 6))"
    using assms(5) by simp
  have "ensureUpdateBranchExists (Some oc) ctx branchName baseBranch tr =
          verifyLoop oc ctx branchName (''heads/'' @ branchName) 0 tr3"
    using assms(1-4) by (rule ensure_verifies)
  also have "\<dots> = verifyLoop oc ctx branchName (''heads/'' @ branchName) 6 T"
    unfolding T_def using assms(5)
    by (intro verifyLoop_backoff) (simp_all add: MAX_VERIFICATION_ATTEMPTS_def)
  also have "\<dots> = (Inl (Fresh msg),
      T @ [GetRef (owner ctx) (repo ctx) (''heads/'' @ branchName)
             (getRef oc (n_gets tr3 + 6))])"
    using last n6
    by (auto simp: verifyLoop_unfold [of _ _ _ _ 6] Let_def MAX_VERIFICATION_ATTEMPTS_def
          msg_def split: sum.splits)
  finally have run: "ensureUpdateBranchExists (Some oc) ctx branchName baseBranch tr =
      (Inl (Fresh msg),
       T @ [GetRef (owner ctx) (repo ctx) (''heads/'' @ branchName)
              (getRef oc (n_gets tr3 + 6))])" .
  have "msg = (''Branch '' @ branchName @ '' was created but is '')
                @ ''not accessible after multiple retries'' @ []"
    by (simp add: msg_def)
  then have s1: "sublist ''not accessible after multiple retries'' msg"
    unfolding sublist_def by blast
  have "msg = ''Branch '' @ branchName
                @ '' was created but is not accessible after multiple retries''"
    by (simp add: msg_def)
  then have s2: "sublist branchName msg"
    unfolding sublist_def by blast
  show ?thesis
    unfolding run using s1 s2 n6 by (simp add: msg_def)
qed

theorem verification_exhausted_witness:
  "fst (ensureUpdateBranchExists (Some never_accessible_client) test_context
          ''test-branch'' ''main'' []) =
     Inl (Fresh ''Branch test-branch was created but is not accessible after multiple retries'')
   \<and> n_gets (snd (ensureUpdateBranchExists (Some never_accessible_client) test_context
          ''test-branch'' ''main'' [])) = 9"
proof -
  define tr3 where "tr3 =
    [GetRef ''owner'' ''repo'' ''heads/test-branch''
       (Inl \<lparr> status = Some 404, message = ''Not Found'' \<rparr>),
     GetRef ''owner'' ''repo'' ''heads/main''
       (Inr \<lparr> object_sha = Some ''base-sha'', sha = None \<rparr>),
     CreateRef ''owner'' ''repo'' ''refs/heads/test-branch'' (Some ''base-sha'') (Inr ())]"
  have n3: "n_gets tr3 = 2"
    by (simp add: tr3_def)
  have h1: "getRef never_accessible_client (n_gets []) =
              Inl \<lparr> status = Some 404, message = ''Not Found'' \<rparr>"
    by (simp add: never_accessible_client_def mock_defs)
  have h2: "status \<lparr> status = Some 404, message = ''Not Found'' \<rparr> = Some 404"
    by simp
  have h3: "getRef never_accessible_client (n_gets [] + 1) =
              Inr \<lparr> object_sha = Some ''base-sha'', sha = None \<rparr>"
    by (simp add: never_accessible_client_def mock_defs)
  have h4: "createBranchWithCleanup never_accessible_client test_context ''test-branch''
        (''heads/'' @ ''test-branch'') (''refs/heads/'' @ ''test-branch'')
        (resolveRefSha \<lparr> object_sha = Some ''base-sha'', sha = None \<rparr>)
        ([] @ [GetRef (owner test_context) (repo test_context) (''heads/'' @ ''test-branch'')
                 (Inl \<lparr> status = Some 404, message = ''Not Found'' \<rparr>),
               GetRef (owner test_context) (repo test_context) (''heads/'' @ ''main'')
                 (Inr \<lparr> object_sha = Some ''base-sha'', sha = None \<rparr>)])
      = (Inr (), tr3)"
    by (simp add: createBranchWithCleanup_def never_accessible_client_def tr3_def run_simps)
  have h5: "\<forall>k<7. rejected_with 404 (getRef never_accessible_client (n_gets tr3 + k))"
    by (simp add: n3 never_accessible_client_def mock_defs)
  show ?thesis
    using verification_exhausted [OF h1 h2 h3 h4 h5]
    by (simp add: n3)
qed


text \<open>
  C6 as the code has it. When the first \<^verbatim>\<open>createRef\<close> call is rejected with 422 and
  the read after it with 404, the next call is a \<^verbatim>\<open>deleteRef\<close> of
  \<^verbatim>\<open>refs/heads/<branchName>\<close>. When that call resolves or is rejected with 404 or 422,
  the next call is the retried \<^verbatim>\<open>createRef\<close>, with the same ref and sha, and the run
  makes two \<^verbatim>\<open>createRef\<close> calls in all; when it is rejected with another status, the
  run throws that error object and ends there. The run makes a second \<^verbatim>\<open>deleteRef\<close>
  call exactly when the first was let pass and the retried creation is rejected with 422
  and the read after it with 404 again; that call is the last of the run, which then
  throws the "Unable to create branch" error when the second \<^verbatim>\<open>deleteRef\<close> resolves or
  is rejected with 404 or 422, and the error object of that call otherwise.
\<close>

theorem stale_reference_cleanup:
  assumes "getRef oc (n_gets tr) = Inl missing" and "status missing = Some 404"
    and "getRef oc (n_gets tr + 1) = Inr base"
    and "createRef oc (n_creates tr) = Inl conflict" and "status conflict = Some 422"
    and "getRef oc (n_gets tr + 2) = Inl stale" and "status stale = Some 404"
  shows "prefix
           (tr @ [GetRef (owner ctx) (repo ctx) (''heads/'' @ branchName) (Inl missing),
                  GetRef (owner ctx) (repo ctx) (''heads/'' @ baseBranch) (Inr base),
                  CreateRef (owner ctx) (repo ctx) (''refs/heads/'' @ branchName)
                    (resolveRefSha base) (Inl conflict),
                  GetRef (owner ctx) (repo ctx) (''heads/'' @ branchName) (Inl stale),
                  DeleteRef (owner ctx) (repo ctx) (''refs/heads/'' @ branchName)
                    (deleteRef oc (n_deletes tr))])
           (snd (ensureUpdateBranchExists (Some oc) ctx branchName baseBranch tr))
         \<and> (tolerated (deleteRef oc (n_deletes tr)) \<longrightarrow>
              prefix
                (tr @ [GetRef (owner ctx) (repo ctx) (''heads/'' @ branchName) (Inl missing),
                       GetRef (owner ctx) (repo ctx) (''heads/'' @ baseBranch) (Inr base),
                       CreateRef (owner ctx) (repo ctx) (''refs/heads/'' @ branchName)
                         (resolveRefSha base) (Inl conflict),
                       GetRef (owner ctx) (repo ctx) (''heads/'' @ branchName) (Inl stale),
                       DeleteRef (owner ctx) (repo ctx) (''refs/heads/'' @ branchName)
                         (deleteRef oc (n_deletes tr)),
                       CreateRef (owner ctx) (repo ctx) (''refs/heads/'' @ branchName)
                         (resolveRefSha base) (createRef oc (n_creates tr + 1))])
                (snd (ensureUpdateBranchExists (Some oc) ctx branchName baseBranch tr))
              \<and> n_creates (snd (ensureUpdateBranchExists (Some oc) ctx branchName baseBranch tr))
                  = n_creates tr + 2)
         \<and> (\<not> tolerated (deleteRef oc (n_deletes tr)) \<longrightarrow>
              ensureUpdateBranchExists (Some oc) ctx branchName baseBranch tr =
                (Inl (Rethrown (projl (deleteRef oc (n_deletes tr)))),
                 tr @ [GetRef (owner ctx) (repo ctx) (''heads/'' @ branchName) (Inl missing),
                       GetRef (owner ctx) (repo ctx) (''heads/'' @ baseBranch) (Inr base),
                       CreateRef (owner ctx) (repo ctx) (''refs/heads/'' @ branchName)
                         (resolveRefSha base) (Inl conflict),
                       GetRef (owner ctx) (repo ctx) (''heads/'' @ branchName) (Inl stale),
                       DeleteRef (owner ctx) (repo ctx) (''refs/heads/'' @ branchName)
                         (deleteRef oc (n_deletes tr))]))
         \<and> n_deletes (snd (ensureUpdateBranchExists (Some oc) ctx branchName baseBranch tr))
             = n_deletes tr
               + (if tolerated (deleteRef oc (n_deletes tr))
                     \<and> rejected_with 422 (createRef oc (n_creates tr + 1))
                     \<and> rejected_with 404 (getRef oc (n_gets tr + 3))
                  then 2 else 1)
         \<and> (tolerated (deleteRef oc (n_deletes tr))
              \<and> rejected_with 422 (createRef oc (n_creates tr + 1))
              \<and> rejected_with 404 (getRef oc (n_gets tr + 3)) \<longrightarrow>
              ensureUpdateBranchExists (Some oc) ctx branchName baseBranch tr =
                (if tolerated (deleteRef oc (n_deletes tr + 1))
                 then Inl (Fresh (''Unable to create branch '' @ branchName
                        @ '' after cleaning up conflicting references.''))
                 else Inl (Rethrown (projl (deleteRef oc (n_deletes tr + 1)))),
                 tr @ [GetRef (owner ctx) (repo ctx) (''heads/'' @ branchName) (Inl missing),
                       GetRef (owner ctx) (repo ctx) (''heads/'' @ baseBranch) (Inr base),
                       CreateRef (owner ctx) (repo ctx) (''refs/heads/'' @ branchName)
                         (resolveRefSha base) (Inl conflict),
                       GetRef (owner ctx) (repo ctx) (''heads/'' @ branchName) (Inl stale),
                       DeleteRef (owner ctx) (repo ctx) (''refs/heads/'' @ branchName)
                         (deleteRef oc (n_deletes tr)),
                       CreateRef (owner ctx) (repo ctx) (''refs/heads/'' @ branchName)
                         (resolveRefSha base) (createRef oc (n_creates tr + 1)),
                       GetRef (owner ctx) (repo ctx) (''heads/'' @ branchName)
                         (getRef oc (n_gets tr + 3)),
                       DeleteRef (owner ctx) (repo ctx) (''refs/heads/'' @ branchName)
                         (deleteRef oc (n_deletes tr + 1))]))"
proof -
  have e: "Suc (Suc (Suc n)) = n + 3" for n
    by simp
  show ?thesis
    using assms
    by (auto simp: ensure_unfold createLoop_unfold const_defs Let_def e
          split: sum.splits prod.splits intro!: verifyLoop_prefix_trans)
qed


theorem stale_reference_cleanup_witness:
  "ensureUpdateBranchExists (Some stale_ref_client) test_context ''test-branch'' ''main'' [] =
     (Inr True,
      [GetRef ''owner'' ''repo'' ''heads/test-branch'' (rejected 404 ''Not Found''),
       GetRef ''owner'' ''repo'' ''heads/main'' (resolved ''base-sha''),
       CreateRef ''owner'' ''repo'' ''refs/heads/test-branch'' (Some ''base-sha'')
         (rejected 422 ''Reference already exists''),
       GetRef ''owner'' ''repo'' ''heads/test-branch'' (rejected 404 ''Not Found''),
       DeleteRef ''owner'' ''repo'' ''refs/heads/test-branch'' (Inr ()),
       CreateRef ''owner'' ''repo'' ''refs/heads/test-branch'' (Some ''base-sha'') (Inr ()),
       GetRef ''owner'' ''repo'' ''heads/test-branch'' (resolved ''new-branch-sha'')])
   \<and> n_deletes (snd (ensureUpdateBranchExists (Some stale_ref_client) test_context
        ''test-branch'' ''main'' [])) = 1
   \<and> ensureUpdateBranchExists (Some double_conflict_client) test_context
        ''test-branch'' ''main'' [] =
     (Inl (Fresh ''Unable to create branch test-branch after cleaning up conflicting references.''),
      [GetRef ''owner'' ''repo'' ''heads/test-branch'' (rejected 404 ''Not Found''),
       GetRef ''owner'' ''repo'' ''heads/main'' (resolved ''base-sha''),
       CreateRef ''owner'' ''repo'' ''refs/heads/test-branch'' (Some ''base-sha'')
         (rejected 422 ''Reference already exists''),
       GetRef ''owner'' ''repo'' ''heads/test-branch'' (rejected 404 ''Not Found''),
       DeleteRef ''owner'' ''repo'' ''refs/heads/test-branch'' (Inr ()),
       CreateRef ''owner'' ''repo'' ''refs/heads/test-branch'' (Some ''base-sha'')
         (rejected 422 ''Reference already exists''),
       GetRef ''owner'' ''repo'' ''heads/test-branch'' (rejected 404 ''Not Found''),
       DeleteRef ''owner'' ''repo'' ''refs/heads/test-branch'' (Inr ())])
   \<and> ensureUpdateBranchExists (Some delete_fails_client) test_context
        ''test-branch'' ''main'' [] =
     (Inl (Rethrown \<lparr> status = Some 500, message = ''Server Error'' \<rparr>),
      [GetRef ''owner'' ''repo'' ''heads/test-branch'' (rejected 404 ''Not Found''),
       GetRef ''owner'' ''repo'' ''heads/main'' (resolved ''base-sha''),
       CreateRef ''owner'' ''repo'' ''refs/heads/test-branch'' (Some ''base-sha'')
         (rejected 422 ''Reference already exists''),
       GetRef ''owner'' ''repo'' ''heads/test-branch'' (rejected 404 ''Not Found''),
       DeleteRef ''owner'' ''repo'' ''refs/heads/test-branch'' (rejected 500 ''Server Error'')])"
proof -
  have h2: "status \<lparr> status = Some 404, message = ''Not Found'' \<rparr> = Some 404"
    by simp
  have h5: "status \<lparr> status = Some 422, message = ''Reference already exists'' \<rparr> = Some 422"
    by simp
  have a1: "getRef stale_ref_client (n_gets []) =
              Inl \<lparr> status = Some 404, message = ''Not Found'' \<rparr>"
    by (simp add: stale_ref_client_def mock_defs)
  have a3: "getRef stale_ref_client (n_gets [] + 1) =
              Inr \<lparr> object_sha = Some ''base-sha'', sha = None \<rparr>"
    by (simp add: stale_ref_client_def mock_defs)
  have a4: "createRef stale_ref_client (n_creates []) =
              Inl \<lparr> status = Some 422, message = ''Reference already exists'' \<rparr>"
    by (simp add: stale_ref_client_def mock_defs)
  have a6: "getRef stale_ref_client (n_gets [] + 2) =
              Inl \<lparr> status = Some 404, message = ''Not Found'' \<rparr>"
    by (simp add: stale_ref_client_def mock_defs)
  have stale_log: "prefix
     [GetRef ''owner'' ''repo'' ''heads/test-branch'' (rejected 404 ''Not Found''),
      GetRef ''owner'' ''repo'' ''heads/main'' (resolved ''base-sha''),
      CreateRef ''owner'' ''repo'' ''refs/heads/test-branch'' (Some ''base-sha'')
        (rejected 422 ''Reference already exists''),
      GetRef ''owner'' ''repo'' ''heads/test-branch'' (rejected 404 ''Not Found''),
      DeleteRef ''owner'' ''repo'' ''refs/heads/test-branch'' (Inr ()),
      CreateRef ''owner'' ''repo'' ''refs/heads/test-branch'' (Some ''base-sha'') (Inr ())]
     (snd (ensureUpdateBranchExists (Some stale_ref_client) test_context
        ''test-branch'' ''main'' []))
   \<and> n_deletes (snd (ensureUpdateBranchExists (Some stale_ref_client) test_context
        ''test-branch'' ''main'' [])) = 1"
    using stale_reference_cleanup [OF a1 h2 a3 a4 h5 a6 h2,
            of test_context "''test-branch''" "''main''"]
    by (simp add: stale_ref_client_def mock_defs resolveRefSha_def)
  have stale_run: "ensureUpdateBranchExists (Some stale_ref_client) test_context
      ''test-branch'' ''main'' [] =
     (Inr True,
      [GetRef ''owner'' ''repo'' ''heads/test-branch'' (rejected 404 ''Not Found''),
       GetRef ''owner'' ''repo'' ''heads/main'' (resolved ''base-sha''),
       CreateRef ''owner'' ''repo'' ''refs/heads/test-branch'' (Some ''base-sha'')
         (rejected 422 ''Reference already exists''),
       GetRef ''owner'' ''repo'' ''heads/test-branch'' (rejected 404 ''Not Found''),
       DeleteRef ''owner'' ''repo'' ''refs/heads/test-branch'' (Inr ()),
       CreateRef ''owner'' ''repo'' ''refs/heads/test-branch'' (Some ''base-sha'') (Inr ()),
       GetRef ''owner'' ''repo'' ''heads/test-branch'' (resolved ''new-branch-sha'')])"
    by (simp add: stale_ref_client_def run_simps)
  have b1: "getRef double_conflict_client (n_gets []) =
              Inl \<lparr> status = Some 404, message = ''Not Found'' \<rparr>"
    by (simp add: double_conflict_client_def mock_defs)
  have b3: "getRef double_conflict_client (n_gets [] + 1) =
              Inr \<lparr> object_sha = Some ''base-sha'', sha = None \<rparr>"
    by (simp add: double_conflict_client_def mock_defs)
  have b4: "createRef double_conflict_client (n_creates []) =
              Inl \<lparr> status = Some 422, message = ''Reference already exists'' \<rparr>"
    by (simp add: double_conflict_client_def mock_defs)
  have b6: "getRef double_conflict_client (n_gets [] + 2) =
              Inl \<lparr> status = Some 404, message = ''Not Found'' \<rparr>"
    by (simp add: double_conflict_client_def mock_defs)
  have double_run: "ensureUpdateBranchExists (Some double_conflict_client) test_context
        ''test-branch'' ''main'' [] =
     (Inl (Fresh ''Unable to create branch test-branch after cleaning up conflicting references.''),
      [GetRef ''owner'' ''repo'' ''heads/test-branch'' (rejected 404 ''Not Found''),
       GetRef ''owner'' ''repo'' ''heads/main'' (resolved ''base-sha''),
       CreateRef ''owner'' ''repo'' ''refs/heads/test-branch'' (Some ''base-sha'')
         (rejected 422 ''Reference already exists''),
       GetRef ''owner'' ''repo'' ''heads/test-branch'' (rejected 404 ''Not Found''),
       DeleteRef ''owner'' ''repo'' ''refs/heads/test-branch'' (Inr ()),
       CreateRef ''owner'' ''repo'' ''refs/heads/test-branch'' (Some ''base-sha'')
         (rejected 422 ''Reference already exists''),
       GetRef ''owner'' ''repo'' ''heads/test-branch'' (rejected 404 ''Not Found''),
       DeleteRef ''owner'' ''repo'' ''refs/heads/test-branch'' (Inr ())])"
    using stale_reference_cleanup [OF b1 h2 b3 b4 h5 b6 h2,
            of test_context "''test-branch''" "''main''"]
    by (simp add: double_conflict_client_def mock_defs resolveRefSha_def)
  have c1: "getRef delete_fails_client (n_gets []) =
              Inl \<lparr> status = Some 404, message = ''Not Found'' \<rparr>"
    by (simp add: delete_fails_client_def mock_defs)
  have c3: "getRef delete_fails_client (n_gets [] + 1) =
              Inr \<lparr> object_sha = Some ''base-sha'', sha = None \<rparr>"
    by (simp add: delete_fails_client_def mock_defs)
  have c4: "createRef delete_fails_client (n_creates []) =
              Inl \<lparr> status = Some 422, message = ''Reference already exists'' \<rparr>"
    by (simp add: delete_fails_client_def mock_defs)
  have c6: "getRef delete_fails_client (n_gets [] + 2) =
              Inl \<lparr> status = Some 404, message = ''Not Found'' \<rparr>"
    by (simp add: delete_fails_client_def mock_defs)
  have fails_run: "ensureUpdateBranchExists (Some delete_fails_client) test_context
        ''test-branch'' ''main'' [] =
     (Inl (Rethrown \<lparr> status = Some 500, message = ''Server Error'' \<rparr>),
      [GetRef ''owner'' ''repo'' ''heads/test-branch'' (rejected 404 ''Not Found''),
       GetRef ''owner'' ''repo'' ''heads/main'' (resolved ''base-sha''),
       CreateRef ''owner'' ''repo'' ''refs/heads/test-branch'' (Some ''base-sha'')
         (rejected 422 ''Reference already exists''),
       GetRef ''owner'' ''repo'' ''heads/test-branch'' (rejected 404 ''Not Found''),
       DeleteRef ''owner'' ''repo'' ''refs/heads/test-branch'' (rejected 500 ''Server Error'')])"
    using stale_reference_cleanup [OF c1 h2 c3 c4 h5 c6 h2,
            of test_context "''test-branch''" "''main''"]
    by (simp add: delete_fails_client_def mock_defs resolveRefSha_def)
  show ?thesis
    using stale_log stale_run double_run fails_run by simp
qed

text \<open>
  C6 as the spec words it fails twice. When the retried creation conflicts again and the
  branch is still not readable, the run makes two \<^verbatim>\<open>deleteRef\<close> calls and no
  \<^verbatim>\<open>createRef\<close> call comes after the second. When the \<^verbatim>\<open>deleteRef\<close> call is rejected
  with status 500, the run ends on it and the creation is not retried.
\<close>

theorem exactly_one_deletion_counterexample:
  "n_deletes (snd (ensureUpdateBranchExists (Some double_conflict_client) test_context
       ''test-branch'' ''main'' [])) = 2
   \<and> \<not> is_create (last (snd (ensureUpdateBranchExists (Some double_conflict_client)
       test_context ''test-branch'' ''main'' [])))
   \<and> n_creates (snd (ensureUpdateBranchExists (Some delete_fails_client) test_context
       ''test-branch'' ''main'' [])) = 1
   \<and> is_delete (last (snd (ensureUpdateBranchExists (Some delete_fails_client)
       test_context ''test-branch'' ''main'' [])))"
  by (simp add: double_conflict_client_def delete_fails_client_def run_simps)

text \<open>
  C1 on the code. The branch is missing, the base branch resolves, the \<^verbatim>\<open>createRef\<close>
  call resolves and, after fewer than seven verification reads rejected with 404, a
  verification read resolves. The run makes one \<^verbatim>\<open>createRef\<close> call, with
  \<^verbatim>\<open>refs/heads/<branchName>\<close> and the sha of the base branch, no \<^verbatim>\<open>deleteRef\<close> call,
  and ends on the read that confirms the branch. It returns \<open>true\<close>: the value it
  returns when the branch existed already, not the \<open>false\<close> that the comment above the
  function promises for a created branch.
\<close>

theorem clean_creation_returns_true:
  assumes "getRef oc (n_gets tr) = Inl missing" and "status missing = Some 404"
    and "getRef oc (n_gets tr + 1) = Inr base"
    and "createRef oc (n_creates tr) = Inr created"
    and "j < 7"
    and "\<forall>k<j. rejected_with 404 (getRef oc (n_gets tr + 2 + k))"
    and "getRef oc (n_gets tr + 2 + j) = Inr verified"
  shows "ensureUpdateBranchExists (Some oc) ctx branchName baseBranch tr =
           (Inr True,
            tr @ [GetRef (owner ctx) (repo ctx) (''heads/'' @ branchName) (Inl missing),
                  GetRef (owner ctx) (repo ctx) (''heads/'' @ baseBranch) (Inr base),
                  CreateRef (owner ctx) (repo ctx) (''refs/heads/'' @ branchName)
                    (resolveRefSha base) (Inr created)]
               @ spec_backoff_log oc ctx (''heads/'' @ branchName) (n_gets tr + 2) j
               @ [GetRef (owner ctx) (repo ctx) (''heads/'' @ branchName) (Inr verified)])
         \<and> n_creates (snd (ensureUpdateBranchExists (Some oc) ctx branchName baseBranch tr))
             = n_creates tr + 1
         \<and> n_deletes (snd (ensureUpdateBranchExists (Some oc) ctx branchName baseBranch tr))
             = n_deletes tr"
proof -
  define tr3 where "tr3 =
    tr @ [GetRef (owner ctx) (repo ctx) (''heads/'' @ branchName) (Inl missing),
          GetRef (owner ctx) (repo ctx) (''heads/'' @ baseBranch) (Inr base),
          CreateRef (owner ctx) (repo ctx) (''refs/heads/'' @ branchName)
            (resolveRefSha base) (Inr created)]"
  define T where "T = tr3 @ spec_backoff_log oc ctx (''heads/'' @ branchName) (n_gets tr3) j"
  have n3: "n_gets tr3 = n_gets tr + 2"
    by (simp add: tr3_def)
  have nT: "n_gets T = n_gets tr + 2 + j"
    by (simp add: T_def n3)
  have created: "createBranchWithCleanup oc ctx branchName (''heads/'' @ branchName)
           (''refs/heads/'' @ branchName) (resolveRefSha base)
           (tr @ [GetRef (owner ctx) (repo ctx) (''heads/'' @ branchName) (Inl missing),
                  GetRef (owner ctx) (repo ctx) (''heads/'' @ baseBranch) (Inr base)])
         = (Inr (), tr3)"
    using assms(4)
    by (simp add: createBranchWithCleanup_def createLoop_unfold [of _ _ _ _ _ _ 0] const_defs
          tr3_def)
  have "ensureUpdateBranchExists (Some oc) ctx branchName baseBranch tr =
          verifyLoop oc ctx branchName (''heads/'' @ branchName) 0 tr3"
    using assms(1-3) created by (rule ensure_verifies)
  also have "\<dots> = verifyLoop oc ctx branchName (''heads/'' @ branchName) j T"
    unfolding T_def using assms(5,6)
    by (intro verifyLoop_backoff) (simp_all add: MAX_VERIFICATION_ATTEMPTS_def n3)
  also have "\<dots> = (Inr True,
      T @ [GetRef (owner ctx) (repo ctx) (''heads/'' @ branchName) (Inr verified)])"
    using assms(5,7) nT
    by (simp add: verifyLoop_unfold [of _ _ _ _ j] Let_def MAX_VERIFICATION_ATTEMPTS_def)
  finally have run: "ensureUpdateBranchExists (Some oc) ctx branchName baseBranch tr =
      (Inr True, T @ [GetRef (owner ctx) (repo ctx) (''heads/'' @ branchName) (Inr verified)])" .
  show ?thesis
    unfolding run by (simp add: T_def tr3_def)
qed

theorem clean_creation_returns_true_witness:
  "ensureUpdateBranchExists (Some clean_client) test_context ''test-branch'' ''main'' [] =
     (Inr True,
      [GetRef ''owner'' ''repo'' ''heads/test-branch'' (rejected 404 ''Not Found''),
       GetRef ''owner'' ''repo'' ''heads/main'' (resolved ''base-sha''),
       CreateRef ''owner'' ''repo'' ''refs/heads/test-branch'' (Some ''base-sha'') (Inr ()),
       GetRef ''owner'' ''repo'' ''heads/test-branch'' (resolved ''new-branch-sha'')])
   \<and> fst (ensureUpdateBranchExists (Some clean_client) test_context
          ''test-branch'' ''main'' [])
     = fst (ensureUpdateBranchExists (Some existing_client) test_context
          ''test-branch'' ''main'' [])
   \<and> fst (ensureUpdateBranchExists (Some slow_client) test_context
          ''test-branch'' ''main'' []) = Inr True
   \<and> n_creates (snd (ensureUpdateBranchExists (Some slow_client) test_context
          ''test-branch'' ''main'' [])) = 1"
proof -
  have h1: "getRef clean_client (n_gets []) =
              Inl \<lparr> status = Some 404, message = ''Not Found'' \<rparr>"
    by (simp add: clean_client_def mock_defs)
  have h2: "status \<lparr> status = Some 404, message = ''Not Found'' \<rparr> = Some 404"
    by simp
  have h3: "getRef clean_client (n_gets [] + 1) =
              Inr \<lparr> object_sha = Some ''base-sha'', sha = None \<rparr>"
    by (simp add: clean_client_def mock_defs)
  have h4: "createRef clean_client (n_creates []) = Inr ()"
    by (simp add: clean_client_def mock_defs)
  have h5: "(0::nat) < 7"
    by simp
  have h6: "\<forall>k<0. rejected_with 404 (getRef clean_client (n_gets [] + 2 + k))"
    by simp
  have h7: "getRef clean_client (n_gets [] + 2 + 0) =
              Inr \<lparr> object_sha = Some ''new-branch-sha'', sha = None \<rparr>"
    by (simp add: clean_client_def mock_defs)
  have existing: "fst (ensureUpdateBranchExists (Some existing_client) test_context
          ''test-branch'' ''main'' []) = Inr True"
    by (simp add: existing_client_def run_simps)
  have s1: "getRef slow_client (n_gets []) =
              Inl \<lparr> status = Some 404, message = ''Not Found'' \<rparr>"
    by (simp add: slow_client_def mock_defs)
  have s3: "getRef slow_client (n_gets [] + 1) =
              Inr \<lparr> object_sha = Some ''base-sha'', sha = None \<rparr>"
    by (simp add: slow_client_def mock_defs)
  have s4: "createRef slow_client (n_creates []) = Inr ()"
    by (simp add: slow_client_def mock_defs)
  have s5: "(6::nat) < 7"
    by simp
  have s6: "\<forall>k<6. rejected_with 404 (getRef slow_client (n_gets [] + 2 + k))"
  proof (intro allI impI)
    fix k :: nat
    assume "k < 6"
    then consider "k = 0" | "k = 1" | "k = 2" | "k = 3" | "k = 4" | "k = 5"
      by linarith
    then show "rejected_with 404 (getRef slow_client (n_gets [] + 2 + k))"
      by cases (simp_all add: slow_client_def mock_defs)
  qed
  have s7: "getRef slow_client (n_gets [] + 2 + 6) =
              Inr \<lparr> object_sha = Some ''new-branch-sha'', sha = None \<rparr>"
    by (simp add: slow_client_def mock_defs)
  have slow: "fst (ensureUpdateBranchExists (Some slow_client) test_context
          ''test-branch'' ''main'' []) = Inr True
     \<and> n_creates (snd (ensureUpdateBranchExists (Some slow_client) test_context
          ''test-branch'' ''main'' [])) = 1"
    using clean_creation_returns_true [OF s1 h2 s3 s4 s5 s6 s7,
            of test_context "''test-branch''" "''main''"]
    by simp
  show ?thesis
    using clean_creation_returns_true [OF h1 h2 h3 h4 h5 h6 h7,
            of test_context "''test-branch''" "''main''"] existing slow
    by (simp add: mock_defs resolveRefSha_def)
qed

text \<open>
  C2 on the code. The run reaches the verification loop and the first read there is
  rejected with status 500. The run stops reading, but what it throws is a new error with
  the message about retries, not the error object of the read.
\<close>

theorem verification_error_is_replaced:
  "ensureUpdateBranchExists
     (Some (octokitMock [rejected 404 m, Inr base, rejected 500 m'] fallback [Inr ()] []))
     ctx branchName baseBranch [] =
     (Inl (Fresh (''Branch '' @ branchName
            @ '' was created but is not accessible after multiple retries'')),
      [GetRef (owner ctx) (repo ctx) (''heads/'' @ branchName) (rejected 404 m),
       GetRef (owner ctx) (repo ctx) (''heads/'' @ baseBranch) (Inr base),
       CreateRef (owner ctx) (repo ctx) (''refs/heads/'' @ branchName) (resolveRefSha base)
         (Inr ()),
       GetRef (owner ctx) (repo ctx) (''heads/'' @ branchName) (rejected 500 m')])
   \<and> fst (ensureUpdateBranchExists
        (Some (octokitMock [rejected 404 m, Inr base, rejected 500 m'] fallback [Inr ()] []))
        ctx branchName baseBranch [])
     \<noteq> Inl (Rethrown \<lparr> status = Some 500, message = m' \<rparr>)"
  by (simp add: ensure_unfold createLoop_unfold verifyLoop_unfold const_defs mock_defs Let_def)

end
